theory Spec2Isabelle
  imports Complex_Main "HOL-Library.Char_ord" "HOL-Library.List_Lexorder" "HOL-Library.Sublist"
    "HOL-Library.Monad_Syntax" "HOL-Library.Multiset"
begin

section \<open>Python strings and values\<close>

text \<open>
  The two scripts \<^verbatim>\<open>leexmlpy.py\<close> and \<^verbatim>\<open>leexmlpyN.py\<close> share their utilities and the
  extraction loop word for word; they differ in the printing, in the early return for an
  empty corpus and in the value returned. Strings are \<^typ>\<open>string\<close>, read as
  the UTF-8 bytes of the Python string. Python's \<^verbatim>\<open>float\<close> is
  kept abstract: the type \<open>'f\<close> of floats, its \<open>0\<close> (Python's \<^verbatim>\<open>0.0\<close>, and the \<^verbatim>\<open>int\<close> \<^verbatim>\<open>0\<close>
  that the code passes as a default, which Python's arithmetic and comparison identify
  with it) and its \<open>+\<close>, of which no law is assumed. The library parser \<^verbatim>\<open>float(str)\<close> is a
  parameter \<open>fl\<close>, \<open>None\<close> standing for its \<^verbatim>\<open>ValueError\<close>.
\<close>

datatype 'f pyval = PStr string | PNum 'f

text \<open>\<^verbatim>\<open>s.strip(chars)\<close>: drops every leading and every trailing character that is in \<open>chars\<close>.\<close>

definition py_strip :: "char set \<Rightarrow> string \<Rightarrow> string" where
  "py_strip cs s = rev (dropWhile (\<lambda>c. c \<in> cs) (rev (dropWhile (\<lambda>c. c \<in> cs) s)))"

text \<open>\<^verbatim>\<open>s.replace(old, new)\<close> for a one-character \<open>old\<close>: every occurrence is replaced.\<close>

fun py_replace :: "char \<Rightarrow> string \<Rightarrow> string \<Rightarrow> string" where
  "py_replace old new [] = []"
| "py_replace old new (c # s) = (if c = old then new @ py_replace old new s else c # py_replace old new s)"

text \<open>\<^verbatim>\<open>s.lower()\<close> on the ASCII letters, the only ones that can lower to \<^verbatim>\<open>x\<close>, \<^verbatim>\<open>m\<close> or \<^verbatim>\<open>l\<close>.\<close>

definition lower_char :: "char \<Rightarrow> char" where
  "lower_char c = (if CHR ''A'' \<le> c \<and> c \<le> CHR ''Z'' then char_of (of_char c + (32::nat)) else c)"

definition py_lower :: "string \<Rightarrow> string" where
  "py_lower s = map lower_char s"

definition endswith :: "string \<Rightarrow> string \<Rightarrow> bool" where
  "endswith s suf = suffix suf s"

definition startswith :: "string \<Rightarrow> string \<Rightarrow> bool" where
  "startswith s pre = prefix pre s"

section \<open>Utilities of the scripts\<close>

text \<open>
  \<^verbatim>\<open>to_float(val, default)\<close>: \<open>val\<close> is an attribute value or \<^verbatim>\<open>None\<close>. The \<^verbatim>\<open>try\<close> catches every
  \<^verbatim>\<open>Exception\<close>, and \<^verbatim>\<open>float\<close> of a string raises nothing but \<^verbatim>\<open>ValueError\<close>.
\<close>

definition to_float :: "(string \<Rightarrow> 'f option) \<Rightarrow> string option \<Rightarrow> 'f \<Rightarrow> 'f" where
  "to_float fl val dflt =
     (case val of
        None \<Rightarrow> dflt
      | Some s \<Rightarrow> if s = [] then dflt
                 else (case fl s of Some v \<Rightarrow> v | None \<Rightarrow> dflt))"

text \<open>\<^verbatim>\<open>xml_namespace_of_tag(tag)\<close>: \<^verbatim>\<open>tag[1:].split('}', 1)[0]\<close> is the text before the first \<^verbatim>\<open>}\<close>.\<close>

definition xml_namespace_of_tag :: "string \<Rightarrow> string" where
  "xml_namespace_of_tag tg =
     (if tg \<noteq> [] \<and> startswith tg ''{'' then takeWhile (\<lambda>c. c \<noteq> CHR ''}'') (tl tg) else [])"

text \<open>The derived invoice number: \<^verbatim>\<open>f"{comp['SERIE']}-{comp['FOLIO']}".strip('-')\<close>.\<close>

definition n_factura :: "string \<Rightarrow> string \<Rightarrow> string" where
  "n_factura serie folio = py_strip {CHR ''-''} (serie @ ''-'' @ folio)"

section \<open>The library's ISO 8601 parser\<close>

text \<open>
  \<^verbatim>\<open>datetime.fromisoformat\<close> is library code: the scripts run the C implementation of
  CPython 3.11 and 3.12 (\<^verbatim>\<open>Modules/_datetimemodule.c\<close>), which is modelled here function by
  function. It works on the UTF-8 bytes of the string, ended by a zero byte; \<open>byte_at\<close>
  reads a byte, the terminator beyond the end. \<open>None\<close> stands for the \<^verbatim>\<open>ValueError\<close> the
  call raises.
\<close>

definition is_ascii_digit :: "char \<Rightarrow> bool" where
  "is_ascii_digit c = (CHR ''0'' \<le> c \<and> c \<le> CHR ''9'')"

definition digit_val :: "char \<Rightarrow> int" where
  "digit_val c = int (of_char c) - 48"

text \<open>\<^verbatim>\<open>dtstr[i]\<close> in the C buffer.\<close>

definition byte_at :: "string \<Rightarrow> nat \<Rightarrow> char" where
  "byte_at s i = (if i < length s then s ! i else CHR 0x00)"

text \<open>
  \<^verbatim>\<open>parse_digits(ptr, &var, num_digits)\<close>, called with \<open>var = 0\<close>: the value of the
  \<open>num_digits\<close> digits at position \<open>p\<close>, or \<^verbatim>\<open>NULL\<close> when one of them is no digit.
\<close>

definition parse_digits :: "string \<Rightarrow> nat \<Rightarrow> nat \<Rightarrow> int option" where
  "parse_digits s p num_digits =
     (let ds = take num_digits (drop p s) in
      if length ds = num_digits \<and> list_all is_ascii_digit ds
      then Some (foldl (\<lambda>a c. 10 * a + digit_val c) 0 ds) else None)"

text \<open>The date-time, its time zone as the offset from UTC in microseconds, \<open>None\<close> when naive.\<close>

record datetime =
  year :: int
  month :: int
  day :: int
  hour :: int
  minute :: int
  second :: int
  microsecond :: int
  tzinfo :: "int option"

definition is_leap :: "int \<Rightarrow> bool" where
  "is_leap y = (y mod 4 = 0 \<and> (y mod 100 \<noteq> 0 \<or> y mod 400 = 0))"

definition days_before_year :: "int \<Rightarrow> int" where
  "days_before_year yr = (let y = yr - 1 in y * 365 + y div 4 - y div 100 + y div 400)"

definition DAYS_IN_MONTH :: "int list" where
  "DAYS_IN_MONTH = [-1, 31, 28, 31, 30, 31, 30, 31, 31, 30, 31, 30, 31]"

definition DAYS_BEFORE_MONTH :: "int list" where
  "DAYS_BEFORE_MONTH = [-1, 0, 31, 59, 90, 120, 151, 181, 212, 243, 273, 304, 334]"

definition days_in_month :: "int \<Rightarrow> int \<Rightarrow> int" where
  "days_in_month y m = (if m = 2 \<and> is_leap y then 29 else DAYS_IN_MONTH ! nat m)"

definition days_before_month :: "int \<Rightarrow> int \<Rightarrow> int" where
  "days_before_month y m = DAYS_BEFORE_MONTH ! nat m + (if m > 2 \<and> is_leap y then 1 else 0)"

definition ymd2ord :: "int \<Rightarrow> int \<Rightarrow> int \<Rightarrow> int" where
  "ymd2ord y m d = days_before_year y + days_before_month y m + d"

definition DI400Y :: int where "DI400Y = 146097"
definition DI100Y :: int where "DI100Y = 36524"
definition DI4Y :: int where "DI4Y = 1461"

definition ord2ymd :: "int \<Rightarrow> int \<times> int \<times> int" where
  "ord2ymd n0 =
     (let n = n0 - 1;
          n400 = n div DI400Y; n = n mod DI400Y;
          yr = n400 * 400 + 1;
          n100 = n div DI100Y; n = n mod DI100Y;
          n4 = n div DI4Y; n = n mod DI4Y;
          n1 = n div 365; n = n mod 365;
          yr = yr + n100 * 100 + n4 * 4 + n1
      in if n1 = 4 \<or> n100 = 4 then (yr - 1, 12, 31)
         else
           (let leapyear = (n1 = 3 \<and> (n4 \<noteq> 24 \<or> n100 = 3));
                mo = (n + 50) div 32;
                preceding = DAYS_BEFORE_MONTH ! nat mo + (if mo > 2 \<and> leapyear then 1 else 0)
            in if preceding > n
               then (let mo = mo - 1;
                         preceding = preceding - (DAYS_IN_MONTH ! nat mo + (if mo = 2 \<and> leapyear then 1 else 0))
                     in (yr, mo, n - preceding + 1))
               else (yr, mo, n - preceding + 1)))"

definition isoweek1monday :: "int \<Rightarrow> int" where
  "isoweek1monday y =
     (let firstday = ymd2ord y 1 1;
          firstweekday = (firstday + 6) mod 7;
          week1monday = firstday - firstweekday
      in if firstweekday > 3 then week1monday + 7 else week1monday)"


text \<open>
  \<^verbatim>\<open>iso_to_ymd\<close>. For the year \<open>0000\<close> the C arithmetic gives a month below 1, which the
  constructor rejects: the result is the error.
\<close>

definition weekday :: "int \<Rightarrow> int \<Rightarrow> int \<Rightarrow> int" where
  "weekday y m d = (ymd2ord y m d + 6) mod 7"

definition iso_to_ymd :: "int \<Rightarrow> int \<Rightarrow> int \<Rightarrow> (int \<times> int \<times> int) option" where
  "iso_to_ymd iso_year iso_week iso_day =
     (if iso_year = 0 then None
      else if (iso_week \<le> 0 \<or> iso_week \<ge> 53)
              \<and> \<not> (iso_week = 53 \<and> (let first_weekday = weekday iso_year 1 1
                                    in first_weekday = 3 \<or> (first_weekday = 2 \<and> is_leap iso_year)))
      then None
      else if iso_day \<le> 0 \<or> iso_day \<ge> 8 then None
      else Some (ord2ymd (isoweek1monday iso_year + ((iso_week - 1) * 7 + iso_day - 1))))"

text \<open>\<^verbatim>\<open>_find_isoformat_datetime_separator\<close>, called on strings of at least 7 bytes.\<close>

definition find_isoformat_datetime_separator :: "string \<Rightarrow> nat option" where
  "find_isoformat_datetime_separator dtstr =
     (let len = length dtstr in
      if len = 7 then Some 7
      else if byte_at dtstr 4 = CHR ''-'' then
        (if byte_at dtstr 5 = CHR ''W'' then
           (if len < 8 then None
            else if len > 8 \<and> byte_at dtstr 8 = CHR ''-'' then
              (if len = 9 then None
               else if len > 10 \<and> is_ascii_digit (byte_at dtstr 10) then Some 8
               else Some 10)
            else Some 8)
         else Some 10)
      else if byte_at dtstr 4 = CHR ''W'' then
        (let idx = 7 + length (takeWhile is_ascii_digit (drop 7 dtstr)) in
         if idx < 9 then Some idx else if even idx then Some 7 else Some 8)
      else Some 8)"

text \<open>
  \<^verbatim>\<open>parse_isoformat_date(dtstr, len, ...)\<close>, where \<open>len\<close> is the position of the separator;
  the day of a calendar date is always read in two digits.
\<close>

definition parse_isoformat_date :: "string \<Rightarrow> nat \<Rightarrow> (int \<times> int \<times> int) option" where
  "parse_isoformat_date dtstr len =
     do {
       yr \<leftarrow> parse_digits dtstr 0 4;
       let uses_separator = (byte_at dtstr 4 = CHR ''-'');
       let p = (if uses_separator then 5 else 4);
       if byte_at dtstr p = CHR ''W'' then do {
         let p = p + 1;
         iso_week \<leftarrow> parse_digits dtstr p 2;
         let p = p + 2;
         iso_day \<leftarrow> (if p < len
                     then (if uses_separator \<and> byte_at dtstr p \<noteq> CHR ''-'' then None
                           else parse_digits dtstr (if uses_separator then p + 1 else p) 1)
                     else Some 1);
         iso_to_ymd yr iso_week iso_day
       } else do {
         mo \<leftarrow> parse_digits dtstr p 2;
         let p = p + 2;
         if uses_separator \<and> byte_at dtstr p \<noteq> CHR ''-'' then None
         else do {
           d \<leftarrow> parse_digits dtstr (if uses_separator then p + 1 else p) 2;
           Some (yr, mo, d)
         }
       }
     }"

text \<open>
  \<^verbatim>\<open>parse_hh_mm_ss_ff(tstr, tstr_end, ...)\<close>. \<open>hms_loop\<close> is its loop over the hour, the
  minute and the second, with the components still to read, the position \<open>p\<close>, the flag
  \<^verbatim>\<open>has_separator\<close> and the values read so far. It ends by returning whether the byte
  after the last component is not the terminator (\<open>Returned\<close>), or by going on to the
  fraction at a position (\<open>Fraction\<close>): after a \<^verbatim>\<open>.\<close> or a \<^verbatim>\<open>,\<close> behind any component, and
  also when three components are followed by more bytes. The function returns the four
  values and whether bytes remain.
\<close>

datatype hms_exit = Returned bool | Fraction nat

fun hms_loop :: "string \<Rightarrow> nat \<Rightarrow> nat \<Rightarrow> nat \<Rightarrow> bool \<Rightarrow> int list \<Rightarrow> (int list \<times> hms_exit) option" where
  "hms_loop buf p_end 0 p has_separator vals = Some (vals, Fraction p)"
| "hms_loop buf p_end (Suc k) p has_separator vals =
     (case parse_digits buf p 2 of
        None \<Rightarrow> None
      | Some v \<Rightarrow>
          (let c = byte_at buf (p + 2);
               p = p + 3;
               has_separator = (if vals = [] then c = CHR '':'' else has_separator);
               vals = vals @ [v]
           in if p \<ge> p_end then Some (vals, Returned (c \<noteq> CHR 0x00))
              else if has_separator \<and> c = CHR '':'' then hms_loop buf p_end k p has_separator vals
              else if c = CHR ''.'' \<or> c = CHR '','' then Some (vals, Fraction p)
              else if \<not> has_separator then hms_loop buf p_end k (p - 1) has_separator vals
              else None))"

definition correction :: "int list" where
  "correction = [100000, 10000, 1000, 100, 10]"

definition parse_hh_mm_ss_ff :: "string \<Rightarrow> nat \<Rightarrow> (int \<times> int \<times> int \<times> int \<times> bool) option" where
  "parse_hh_mm_ss_ff buf p_end =
     (case hms_loop buf p_end 3 0 True [] of
        None \<Rightarrow> None
      | Some (vals, ex) \<Rightarrow>
          (let vals = vals @ replicate (3 - length vals) 0;
               hh = vals ! 0; mm = vals ! 1; ss = vals ! 2
           in case ex of
                Returned trailing \<Rightarrow> Some (hh, mm, ss, 0, trailing)
              | Fraction p \<Rightarrow>
                  (let len_remains = p_end - p;
                       to_parse = (if len_remains \<ge> 6 then 6 else len_remains)
                   in case parse_digits buf p to_parse of
                        None \<Rightarrow> None
                      | Some us \<Rightarrow>
                          (let us = (if to_parse < 6 then us * correction ! (to_parse - 1) else us);
                               p = p + to_parse;
                               p = p + length (takeWhile is_ascii_digit (drop p buf))
                           in Some (hh, mm, ss, us, byte_at buf p \<noteq> CHR 0x00)))))"

text \<open>
  \<^verbatim>\<open>parse_isoformat_time\<close>: the time runs up to the first \<^verbatim>\<open>Z\<close>, \<^verbatim>\<open>+\<close> or \<^verbatim>\<open>-\<close>; bytes that
  remain behind the time are an error only when no time zone follows. The time zone is
  returned as its seconds and its microseconds, signed.
\<close>

definition is_tz_char :: "char \<Rightarrow> bool" where
  "is_tz_char c = (c = CHR ''Z'' \<or> c = CHR ''+'' \<or> c = CHR ''-'')"

definition parse_isoformat_time :: "string \<Rightarrow> (int \<times> int \<times> int \<times> int \<times> (int \<times> int) option) option" where
  "parse_isoformat_time dtstr =
     (let dtlen = length dtstr;
          tzinfo_pos = (if dtlen = 0 then 1 else length (takeWhile (\<lambda>c. \<not> is_tz_char c) dtstr))
      in case parse_hh_mm_ss_ff dtstr tzinfo_pos of
           None \<Rightarrow> None
         | Some (hh, mm, ss, us, trailing) \<Rightarrow>
             if tzinfo_pos = dtlen then (if trailing then None else Some (hh, mm, ss, us, None))
             else if byte_at dtstr tzinfo_pos = CHR ''Z''
             then (if byte_at dtstr (tzinfo_pos + 1) \<noteq> CHR 0x00 then None
                   else Some (hh, mm, ss, us, Some (0, 0)))
             else
               (let tzsign = (if byte_at dtstr tzinfo_pos = CHR ''-'' then - 1 else 1);
                    tzstr = drop (tzinfo_pos + 1) dtstr
                in case parse_hh_mm_ss_ff tzstr (length tzstr) of
                     None \<Rightarrow> None
                   | Some (tzhour, tzminute, tzsecond, tzus, trailing) \<Rightarrow>
                       if trailing then None
                       else Some (hh, mm, ss, us,
                                  Some (tzsign * (tzhour * 3600 + tzminute * 60 + tzsecond), tzsign * tzus))))"

text \<open>The length in bytes of the UTF-8 character that begins with \<open>c\<close>.\<close>

definition utf8_len :: "char \<Rightarrow> nat" where
  "utf8_len c =
     (let b = (of_char c :: nat) in
      if b < 128 then 1 else if b div 16 = 14 then 3 else if b div 16 = 15 then 4 else 2)"

text \<open>
  \<^verbatim>\<open>tzinfo_from_isoformat_results\<close>: an offset of zero seconds is UTC, whatever its
  microseconds; \<^verbatim>\<open>new_timezone\<close> raises unless the offset is strictly within 24 hours.
  The outer \<open>None\<close> is the error, \<open>Some None\<close> the naive result.
\<close>

definition tzinfo_from_isoformat_results :: "(int \<times> int) option \<Rightarrow> int option option" where
  "tzinfo_from_isoformat_results tz =
     (case tz of
        None \<Rightarrow> Some None
      | Some (tzoffset, tz_useconds) \<Rightarrow>
          if tzoffset = 0 then Some (Some 0)
          else (let offset = tzoffset * 1000000 + tz_useconds
                in if - 86400000000 < offset \<and> offset < 86400000000 then Some (Some offset) else None))"

text \<open>The checks of the \<^verbatim>\<open>datetime\<close> constructor.\<close>

definition check_date_fields :: "int \<Rightarrow> int \<Rightarrow> int \<Rightarrow> bool" where
  "check_date_fields y m d =
     (1 \<le> y \<and> y \<le> 9999 \<and> 1 \<le> m \<and> m \<le> 12 \<and> 1 \<le> d \<and> d \<le> days_in_month y m)"

definition check_time_fields :: "int \<Rightarrow> int \<Rightarrow> int \<Rightarrow> int \<Rightarrow> bool" where
  "check_time_fields hh mm ss us =
     (0 \<le> hh \<and> hh \<le> 23 \<and> 0 \<le> mm \<and> mm \<le> 59 \<and> 0 \<le> ss \<and> ss \<le> 59 \<and> 0 \<le> us \<and> us \<le> 999999)"


text \<open>
  \<^verbatim>\<open>datetime.fromisoformat(dtstr)\<close>: the byte at the separator position, of any value, is
  skipped as one UTF-8 character; the time is parsed only when bytes follow the separator
  position.
\<close>

definition fromisoformat :: "string \<Rightarrow> datetime option" where
  "fromisoformat dtstr =
     (let len = length dtstr in
      if len < 7 then None
      else
        (case find_isoformat_datetime_separator dtstr of
           None \<Rightarrow> None
         | Some separator_location \<Rightarrow>
             (case parse_isoformat_date dtstr separator_location of
                None \<Rightarrow> None
              | Some (y, m, d) \<Rightarrow>
                  (case (if len > separator_location
                         then parse_isoformat_time
                                (drop (separator_location + utf8_len (byte_at dtstr separator_location)) dtstr)
                         else Some (0, 0, 0, 0, None)) of
                     None \<Rightarrow> None
                   | Some (hh, mm, ss, us, tz) \<Rightarrow>
                       (case tzinfo_from_isoformat_results tz of
                          None \<Rightarrow> None
                        | Some tzi \<Rightarrow>
                            if check_date_fields y m d \<and> check_time_fields hh mm ss us
                            then Some \<lparr>year = y, month = m, day = d, hour = hh, minute = mm,
                                       second = ss, microsecond = us, tzinfo = tzi\<rparr>
                            else None)))))"

text \<open>
  \<^verbatim>\<open>strftime('%Y-%m')\<close> hands the year and the month to the platform's C library. The month
  is printed in two digits. The year is printed in four digits, zero-padded, as the library
  documents it, on the platforms whose C library pads (\<open>pad\<close>); glibc prints a year below
  1000 without the padding.
\<close>

fun decimal :: "nat \<Rightarrow> string" where
  "decimal n = (if n < 10 then [char_of (48 + n)] else decimal (n div 10) @ [char_of (48 + n mod 10)])"

declare decimal.simps [simp del]

definition zfill :: "nat \<Rightarrow> string \<Rightarrow> string" where
  "zfill w s = replicate (w - length s) CHR ''0'' @ s"

definition strftime_Ym :: "bool \<Rightarrow> datetime \<Rightarrow> string" where
  "strftime_Ym pad d =
     (if pad then zfill 4 (decimal (nat (year d))) else decimal (nat (year d)))
     @ ''-'' @ zfill 2 (decimal (nat (month d)))"

section \<open>Dates in the scripts\<close>

text \<open>\<^verbatim>\<open>parse_fecha_iso(s)\<close>: \<^verbatim>\<open>s.replace('Z', '+00:00')\<close> replaces every \<^verbatim>\<open>Z\<close> of the string.\<close>

definition parse_fecha_iso :: "string \<Rightarrow> datetime option" where
  "parse_fecha_iso s = (if s = [] then None else fromisoformat (py_replace CHR ''Z'' ''+00:00'' s))"

text \<open>\<^verbatim>\<open>comp['M'] = fecha_obj.strftime('%Y-%m') if fecha_obj else ''\<close>.\<close>

definition mes :: "bool \<Rightarrow> string \<Rightarrow> string" where
  "mes pad fecha = (case parse_fecha_iso fecha of Some fecha_obj \<Rightarrow> strftime_Ym pad fecha_obj | None \<Rightarrow> [])"

section \<open>XML documents\<close>

text \<open>
  An \<^verbatim>\<open>xml.etree.ElementTree\<close> element: its tag (\<^verbatim>\<open>{uri}local\<close> when namespace-qualified),
  its attribute dictionary and its children in document order.
\<close>

datatype element = Element (tag: string) (attrib: "(string \<times> string) list") (children: "element list")

text \<open>\<^verbatim>\<open>elem.get(key)\<close>, \<^verbatim>\<open>elem.get(key, default)\<close> and \<^verbatim>\<open>a or b\<close> on strings.\<close>

definition elem_get :: "element \<Rightarrow> string \<Rightarrow> string option" where
  "elem_get e k = map_of (attrib e) k"

definition elem_get_default :: "element \<Rightarrow> string \<Rightarrow> string \<Rightarrow> string" where
  "elem_get_default e k dflt = (case map_of (attrib e) k of Some v \<Rightarrow> v | None \<Rightarrow> dflt)"

definition py_or :: "string \<Rightarrow> string \<Rightarrow> string" where
  "py_or a b = (if a = [] then b else a)"

definition get_attrib :: "element option \<Rightarrow> string \<Rightarrow> string \<Rightarrow> string" where
  "get_attrib elem key dflt =
     (case elem of Some e \<Rightarrow> py_or (elem_get_default e key dflt) dflt | None \<Rightarrow> dflt)"

text \<open>\<^verbatim>\<open>elem.iter()\<close>: the element and its descendants in document order.\<close>

fun elem_iter :: "element \<Rightarrow> element list" where
  "elem_iter (Element t a cs) = Element t a cs # concat (map elem_iter cs)"

definition descendants :: "element \<Rightarrow> element list" where
  "descendants e = concat (map elem_iter (children e))"

text \<open>
  \<^verbatim>\<open>ElementPath\<close> on the paths \<^verbatim>\<open>.//prefix:Local\<close> of the scripts: the tokenizer turns the
  prefixed name into \<^verbatim>\<open>{uri}Local\<close>, and \<^verbatim>\<open>prepare_descendant\<close> selects the descendants
  whose tag matches it, with the wildcard forms of \<^verbatim>\<open>_prepare_tag\<close>.
\<close>

definition qname :: "string \<Rightarrow> string \<Rightarrow> string" where
  "qname uri local = ''{'' @ uri @ ''}'' @ local"

definition is_wildcard_tag :: "string \<Rightarrow> bool" where
  "is_wildcard_tag tg = (take 3 tg = ''{*}'' \<or> drop (length tg - 2) tg = ''}*'')"

definition tag_selects :: "string \<Rightarrow> string \<Rightarrow> bool" where
  "tag_selects tg el_tag =
     (if is_wildcard_tag tg then
        (if tg = ''{*}*'' then True
         else if tg = ''{}*'' then el_tag \<noteq> [] \<and> hd el_tag \<noteq> CHR ''{''
         else if take 3 tg = ''{*}'' then el_tag = drop 3 tg \<or> suffix (drop 2 tg) el_tag
         else take (length tg - 1) el_tag = butlast tg)
      else el_tag = (if take 2 tg = ''{}'' then drop 2 tg else tg))"

definition elem_findall :: "string \<Rightarrow> element \<Rightarrow> element list" where
  "elem_findall tg e = filter (\<lambda>x. tag_selects tg (tag x)) (descendants e)"

definition elem_find :: "string \<Rightarrow> element \<Rightarrow> element option" where
  "elem_find tg e = (case elem_findall tg e of [] \<Rightarrow> None | x # _ \<Rightarrow> Some x)"

definition URI_TFD :: string where
  "URI_TFD = ''http://www.sat.gob.mx/TimbreFiscalDigital''"

definition URI_PAGO20 :: string where
  "URI_PAGO20 = ''http://www.sat.gob.mx/Pagos20''"

section \<open>The extraction of one document\<close>

text \<open>The two loops over the entries of the taxes container, with their running totals.\<close>

fun traslados_loop :: "(string \<Rightarrow> 'f option) \<Rightarrow> element list \<Rightarrow> ('f::{zero,plus}) \<times> 'f \<Rightarrow> 'f \<times> 'f" where
  "traslados_loop fl [] (iva_total, ieps_total) = (iva_total, ieps_total)"
| "traslados_loop fl (traslado # rest) (iva_total, ieps_total) =
     (let imp = elem_get traslado ''Impuesto'' in
      if imp = Some ''002''
      then traslados_loop fl rest (iva_total + to_float fl (elem_get traslado ''Importe'') 0, ieps_total)
      else if imp = Some ''003''
      then traslados_loop fl rest (iva_total, ieps_total + to_float fl (elem_get traslado ''Importe'') 0)
      else traslados_loop fl rest (iva_total, ieps_total))"

fun retenciones_loop :: "(string \<Rightarrow> 'f option) \<Rightarrow> element list \<Rightarrow> ('f::{zero,plus}) \<times> 'f \<Rightarrow> 'f \<times> 'f" where
  "retenciones_loop fl [] (risr_total, riva_total) = (risr_total, riva_total)"
| "retenciones_loop fl (retencion # rest) (risr_total, riva_total) =
     (let imp = elem_get retencion ''Impuesto'' in
      if imp = Some ''001''
      then retenciones_loop fl rest (risr_total + to_float fl (elem_get retencion ''Importe'') 0, riva_total)
      else if imp = Some ''002''
      then retenciones_loop fl rest (risr_total, riva_total + to_float fl (elem_get retencion ''Importe'') 0)
      else retenciones_loop fl rest (risr_total, riva_total))"

text \<open>The four totals \<open>(iva, ieps, risr, riva)\<close> of a document, given its CFDI namespace.\<close>

definition impuestos_totales :: "(string \<Rightarrow> 'f option) \<Rightarrow> string \<Rightarrow> element \<Rightarrow> ('f::{zero,plus}) \<times> 'f \<times> 'f \<times> 'f" where
  "impuestos_totales fl cfdi_uri root_el =
     (case elem_find (qname cfdi_uri ''Impuestos'') root_el of
        None \<Rightarrow> (0, 0, 0, 0)
      | Some impuestos \<Rightarrow>
          (case traslados_loop fl (elem_findall (qname cfdi_uri ''Traslado'') impuestos) (0, 0) of
             (iva_total, ieps_total) \<Rightarrow>
               (case retenciones_loop fl (elem_findall (qname cfdi_uri ''Retencion'') impuestos) (0, 0) of
                  (risr_total, riva_total) \<Rightarrow> (iva_total, ieps_total, risr_total, riva_total))))"

text \<open>The amount of the first payment of the payments complement.\<close>

definition pago_monto :: "(string \<Rightarrow> 'f option) \<Rightarrow> element \<Rightarrow> 'f::{zero,plus}" where
  "pago_monto fl root_el =
     (case elem_find (qname URI_PAGO20 ''Pagos'') root_el of
        None \<Rightarrow> 0
      | Some pagos \<Rightarrow>
          (case elem_find (qname URI_PAGO20 ''Pago'') pagos of
             None \<Rightarrow> 0
           | Some pago \<Rightarrow> to_float fl (elem_get pago ''Monto'') 0))"

text \<open>\<^verbatim>\<open>cfdi_uri = xml_namespace_of_tag(root.tag) or 'http://www.sat.gob.mx/cfd/4'\<close>.\<close>

definition cfdi_uri_of :: "element \<Rightarrow> string" where
  "cfdi_uri_of root_el = py_or (xml_namespace_of_tag (tag root_el)) ''http://www.sat.gob.mx/cfd/4''"

text \<open>
  The body of the \<^verbatim>\<open>try\<close> block: the dictionary \<^verbatim>\<open>comp\<close>, its keys in the order of the
  assignments (each key is assigned once).
\<close>

definition comp_of :: "(string \<Rightarrow> 'f option) \<Rightarrow> bool \<Rightarrow> element \<Rightarrow> (string \<times> ('f::{zero,plus}) pyval) list" where
  "comp_of fl pad root_el =
     (let cfdi_uri = cfdi_uri_of root_el;
          emisor = elem_find (qname cfdi_uri ''Emisor'') root_el;
          receptor = elem_find (qname cfdi_uri ''Receptor'') root_el;
          fecha = py_or (elem_get_default root_el ''Fecha'' []) [];
          serie = py_or (elem_get_default root_el ''Serie'' []) [];
          folio = py_or (elem_get_default root_el ''Folio'' []) [];
          tfd = elem_find (qname URI_TFD ''TimbreFiscalDigital'') root_el
      in case impuestos_totales fl cfdi_uri root_el of
           (iva_total, ieps_total, risr_total, riva_total) \<Rightarrow>
      [(''RFC_EMISOR'', PStr (get_attrib emisor ''Rfc'' [])),
       (''NOMBRE_EMISOR'', PStr (get_attrib emisor ''Nombre'' [])),
       (''RFC_RECEPTOR'', PStr (get_attrib receptor ''Rfc'' [])),
       (''NOMBRE_RECEPTOR'', PStr (get_attrib receptor ''Nombre'' [])),
       (''FECHA'', PStr fecha),
       (''SERIE'', PStr serie),
       (''FOLIO'', PStr folio),
       (''N.FACTURA'', PStr (n_factura serie folio)),
       (''SUBTOTAL'', PNum (to_float fl (elem_get root_el ''SubTotal'') 0)),
       (''T.FACTURA'', PNum (to_float fl (elem_get root_el ''Total'') 0)),
       (''Moneda'', PStr (py_or (elem_get_default root_el ''Moneda'' []) [])),
       (''TipoDeComprobante'', PStr (py_or (elem_get_default root_el ''TipoDeComprobante'' []) [])),
       (''MetodoPago'', PStr (py_or (elem_get_default root_el ''MetodoPago'' []) [])),
       (''FormaPago'', PStr (py_or (elem_get_default root_el ''FormaPago'' []) [])),
       (''UsoCFDI'', PStr (get_attrib receptor ''UsoCFDI'' [])),
       (''TipoCambio'', PStr (py_or (elem_get_default root_el ''TipoCambio'' ''1'') ''1'')),
       (''IVA'', PNum iva_total),
       (''IEPS'', PNum ieps_total),
       (''RISR'', PNum risr_total),
       (''RIVA'', PNum riva_total),
       (''UUID'', PStr (get_attrib tfd ''UUID'' [])),
       (''P-Monto'', PNum (pago_monto fl root_el)),
       (''M'', PStr (mes pad fecha))])"

section \<open>The corpus\<close>

text \<open>
  The directory tree, as \<^verbatim>\<open>os.scandir\<close> lists it: every entry is a name with what is
  there, in the order of the listing, which the operating system chooses. An entry is a
  regular file (or a symbolic link to one), another thing that is no directory (a FIFO, a
  socket, a device, a dangling symbolic link), a directory with its entries, a symbolic
  link to a directory with the entries of its target, or a directory that cannot be
  listed. The file system maps a path to what is there, \<open>None\<close> when nothing is. Paths are
  joined as \<^verbatim>\<open>posixpath.join\<close> joins them.
\<close>

datatype node = File | Special | Dir "(string \<times> node) list" | Link_dir "(string \<times> node) list"
  | Dir_unreadable

type_synonym filesystem = "string \<Rightarrow> node option"

definition path_join :: "string \<Rightarrow> string \<Rightarrow> string" where
  "path_join a b =
     (if startswith b ''/'' then b
      else if a = [] \<or> endswith a ''/'' then a @ b
      else a @ ''/'' @ b)"

text \<open>\<^verbatim>\<open>entry.is_dir()\<close>, which follows symbolic links.\<close>

fun is_dir :: "node \<Rightarrow> bool" where
  "is_dir (Dir es) = True"
| "is_dir (Link_dir es) = True"
| "is_dir Dir_unreadable = True"
| "is_dir File = False"
| "is_dir Special = False"

definition isdir :: "filesystem \<Rightarrow> string \<Rightarrow> bool" where
  "isdir fs path = (case fs path of Some n \<Rightarrow> is_dir n | None \<Rightarrow> False)"

text \<open>
  \<^verbatim>\<open>os.walk(top)\<close>, top-down, with \<^verbatim>\<open>followlinks=False\<close> and no \<^verbatim>\<open>onerror\<close>: the triple of a
  directory, then the walks of its subdirectories in the order of the listing. A symbolic
  link to a directory is among the directory names of the triple but is not entered; a
  directory that cannot be listed yields nothing.
\<close>

fun os_walk :: "string \<Rightarrow> (string \<times> node) list \<Rightarrow> (string \<times> string list \<times> string list) list"
  and walk_dirs :: "string \<Rightarrow> (string \<times> node) list \<Rightarrow> (string \<times> string list \<times> string list) list" where
  "os_walk dirpath es =
     (dirpath, map fst (filter (\<lambda>e. is_dir (snd e)) es), map fst (filter (\<lambda>e. \<not> is_dir (snd e)) es))
     # walk_dirs dirpath es"
| "walk_dirs dirpath [] = []"
| "walk_dirs dirpath ((name, Dir sub) # es) = os_walk (path_join dirpath name) sub @ walk_dirs dirpath es"
| "walk_dirs dirpath ((name, Link_dir sub) # es) = walk_dirs dirpath es"
| "walk_dirs dirpath ((name, Dir_unreadable) # es) = walk_dirs dirpath es"
| "walk_dirs dirpath ((name, File) # es) = walk_dirs dirpath es"
| "walk_dirs dirpath ((name, Special) # es) = walk_dirs dirpath es"

text \<open>
  \<^verbatim>\<open>listar_xmls_recursivo(carpeta)\<close>. The top of the walk is listed through a symbolic link;
  \<^verbatim>\<open>os.walk\<close> yields nothing where there is no directory or where it cannot be listed.
\<close>

definition xml_paths :: "string \<times> string list \<times> string list \<Rightarrow> string list" where
  "xml_paths t = (case t of (r, dirs, files) \<Rightarrow>
     map (path_join r) (filter (\<lambda>f. endswith (py_lower f) ''.xml'') files))"

definition listar_xmls_recursivo :: "filesystem \<Rightarrow> string \<Rightarrow> string list" where
  "listar_xmls_recursivo fs carpeta =
     (case fs carpeta of
        Some (Dir es) \<Rightarrow> sort (concat (map xml_paths (os_walk carpeta es)))
      | Some (Link_dir es) \<Rightarrow> sort (concat (map xml_paths (os_walk carpeta es)))
      | _ \<Rightarrow> sort [])"

section \<open>The pipeline\<close>

text \<open>
  \<^verbatim>\<open>ET.parse(file_path)\<close> reads and parses a file: it returns the root element, or raises
  \<^verbatim>\<open>ParseError\<close> on malformed XML, or another exception (the file cannot be read). It is a
  parameter of the run.
\<close>

datatype parse_exn = ParseError | OtherException

text \<open>
  What the scripts print, with the values that go into the text. A \<^verbatim>\<open>print\<close> can raise
  (\<^verbatim>\<open>UnicodeEncodeError\<close> when the stream cannot encode a name or a symbol of the text): the
  console is a parameter that tells, for a message, whether printing it succeeds.
\<close>

datatype mensaje =
    Carpeta string
  | Encontrados nat
  | Listado string string
  | SinArchivos
  | Procesando string
  | MalFormado string
  | ErrorProcesando string
  | Generado string
  | Procesados nat

datatype error = FileNotFoundError | ConsoleError | WriterError

text \<open>Printing messages one after the other onto the log; the first that fails raises.\<close>

definition imprimir :: "(mensaje \<Rightarrow> bool) \<Rightarrow> mensaje list \<Rightarrow> mensaje list \<Rightarrow> error + mensaje list" where
  "imprimir consola ms salida =
     (if list_all consola ms then Inr (salida @ ms) else Inl ConsoleError)"

text \<open>
  The loop of \<^verbatim>\<open>leexmlpy.py\<close> over the files. The first \<^verbatim>\<open>print\<close> is outside the \<^verbatim>\<open>try\<close>; the
  two others are in the \<^verbatim>\<open>except\<close> clauses, where an exception is not caught either. The
  \<^verbatim>\<open>comp\<close> of every file that parses is appended.
\<close>

fun procesar_archivos ::
  "(string \<Rightarrow> 'f option) \<Rightarrow> bool \<Rightarrow> (mensaje \<Rightarrow> bool) \<Rightarrow> (string \<Rightarrow> parse_exn + element) \<Rightarrow> string list
   \<Rightarrow> (string \<times> ('f::{zero,plus}) pyval) list list \<Rightarrow> mensaje list
   \<Rightarrow> error + ((string \<times> 'f pyval) list list \<times> mensaje list)" where
  "procesar_archivos fl pad consola et_parse [] datos salida = Inr (datos, salida)"
| "procesar_archivos fl pad consola et_parse (file_path # rest) datos salida =
     (case imprimir consola [Procesando file_path] salida of
        Inl e \<Rightarrow> Inl e
      | Inr salida \<Rightarrow>
          (case et_parse file_path of
             Inr root_el \<Rightarrow>
               procesar_archivos fl pad consola et_parse rest (datos @ [comp_of fl pad root_el]) salida
           | Inl ParseError \<Rightarrow>
               (case imprimir consola [MalFormado file_path] salida of
                  Inl e \<Rightarrow> Inl e
                | Inr salida \<Rightarrow> procesar_archivos fl pad consola et_parse rest datos salida)
           | Inl OtherException \<Rightarrow>
               (case imprimir consola [ErrorProcesando file_path] salida of
                  Inl e \<Rightarrow> Inl e
                | Inr salida \<Rightarrow> procesar_archivos fl pad consola et_parse rest datos salida)))"

text \<open>The loop of \<^verbatim>\<open>leexmlpyN.py\<close>, which prints nothing: both \<^verbatim>\<open>except\<close> clauses pass.\<close>

fun procesar_archivos_N ::
  "(string \<Rightarrow> 'f option) \<Rightarrow> bool \<Rightarrow> (string \<Rightarrow> parse_exn + element) \<Rightarrow> string list
   \<Rightarrow> (string \<times> ('f::{zero,plus}) pyval) list list \<Rightarrow> (string \<times> 'f pyval) list list" where
  "procesar_archivos_N fl pad et_parse [] datos = datos"
| "procesar_archivos_N fl pad et_parse (file_path # rest) datos =
     (case et_parse file_path of
        Inr root_el \<Rightarrow> procesar_archivos_N fl pad et_parse rest (datos @ [comp_of fl pad root_el])
      | Inl ParseError \<Rightarrow> procesar_archivos_N fl pad et_parse rest datos
      | Inl OtherException \<Rightarrow> procesar_archivos_N fl pad et_parse rest datos)"

text \<open>
  A \<^verbatim>\<open>pandas.DataFrame\<close>: its column labels and its rows, a cell being \<open>None\<close> where the
  dictionary of the row has no such key. \<^verbatim>\<open>DataFrame(datos)\<close> takes the columns from the keys
  of the dictionaries, in the order of their first occurrence.
\<close>

record 'v dataframe =
  columns :: "string list"
  rows :: "'v option list list"

definition DataFrame :: "(string \<times> 'v) list list \<Rightarrow> 'v dataframe" where
  "DataFrame datos =
     (let cols = foldl (\<lambda>cs d. cs @ filter (\<lambda>k. k \<notin> set cs) (remdups (map fst d))) [] datos
      in \<lparr>columns = cols, rows = map (\<lambda>d. map (map_of d) cols) datos\<rparr>)"

definition df_empty :: "'v dataframe \<Rightarrow> bool" where
  "df_empty df = (columns df = [] \<or> rows df = [])"

text \<open>\<^verbatim>\<open>df[column_order]\<close>, for labels that are columns of \<open>df\<close>, and \<^verbatim>\<open>df.rename(columns=m)\<close>.\<close>

definition index_of :: "string \<Rightarrow> string list \<Rightarrow> nat" where
  "index_of c cs = length (takeWhile (\<lambda>x. x \<noteq> c) cs)"

definition df_select :: "'v dataframe \<Rightarrow> string list \<Rightarrow> 'v dataframe" where
  "df_select df cs =
     \<lparr>columns = cs, rows = map (\<lambda>r. map (\<lambda>c. r ! index_of c (columns df)) cs) (rows df)\<rparr>"

definition rename_col :: "(string \<times> string) list \<Rightarrow> string \<Rightarrow> string" where
  "rename_col m c = (case map_of m c of Some n \<Rightarrow> n | None \<Rightarrow> c)"

definition df_rename :: "(string \<times> string) list \<Rightarrow> 'v dataframe \<Rightarrow> 'v dataframe" where
  "df_rename m df = df\<lparr>columns := map (rename_col m) (columns df)\<rparr>"

definition column_order :: "string list" where
  "column_order =
     [''RFC_EMISOR'', ''RFC_RECEPTOR'', ''NOMBRE_EMISOR'', ''FECHA'', ''N.FACTURA'',
      ''SUBTOTAL'', ''IVA'', ''RISR'', ''RIVA'', ''T.FACTURA'', ''M'', ''UUID'', ''IEPS'',
      ''P-Monto'', ''MetodoPago'', ''TipoDeComprobante'', ''FormaPago'', ''UsoCFDI'', ''TipoCambio'']"

definition rename_map :: "(string \<times> string) list" where
  "rename_map =
     [(''RFC_EMISOR'', ''RFC EMISOR''),
      (''RFC_RECEPTOR'', ''RFC RECEPTOR''),
      (''NOMBRE_EMISOR'', ''NOMBRE''),
      (''MetodoPago'', ''MetodoP''),
      (''TipoDeComprobante'', ''TipoCFDI''),
      (''FormaPago'', ''FPago''),
      (''TipoCambio'', ''Tcambio'')]"

text \<open>The code from \<^verbatim>\<open>df = pd.DataFrame(datos)\<close> to the renamed table that is exported.\<close>

definition tabla :: "(string \<times> 'v) list list \<Rightarrow> 'v dataframe" where
  "tabla datos =
     (let df = DataFrame datos;
          column_order = filter (\<lambda>c. c \<in> set (columns df)) column_order;
          df = (if \<not> df_empty df then df_select df column_order else df)
      in df_rename rename_map df)"

text \<open>
  The spreadsheet writer (\<^verbatim>\<open>pd.ExcelWriter\<close>, \<^verbatim>\<open>to_excel\<close> and the column widths) is a
  parameter: for a destination and a table it tells whether the file is written; when it
  is not, the writer raises. What a run that does not raise leaves behind: the table
  written, its destination, what was printed and the value returned.
\<close>

record 'v reporte =
  excel :: "'v dataframe"
  destino :: string
  impresos :: "mensaje list"
  retorno :: "nat option"

text \<open>\<^verbatim>\<open>_exportar_excel(df, archivo_excel)\<close> of \<^verbatim>\<open>leexmlpy.py\<close>, which prints after writing.\<close>

definition exportar_excel ::
  "(mensaje \<Rightarrow> bool) \<Rightarrow> (string \<Rightarrow> 'v dataframe \<Rightarrow> bool) \<Rightarrow> 'v dataframe \<Rightarrow> string \<Rightarrow> mensaje list
   \<Rightarrow> error + mensaje list" where
  "exportar_excel consola escritor df archivo_excel salida =
     (if \<not> escritor archivo_excel df then Inl WriterError
      else imprimir consola [Generado archivo_excel] salida)"

text \<open>\<^verbatim>\<open>procesar_xml_a_excel\<close> of \<^verbatim>\<open>leexmlpy.py\<close>, with its early return for an empty corpus.\<close>

definition procesar_xml_a_excel ::
  "(string \<Rightarrow> 'f option) \<Rightarrow> bool \<Rightarrow> (mensaje \<Rightarrow> bool) \<Rightarrow> (string \<Rightarrow> ('f::{zero,plus}) pyval dataframe \<Rightarrow> bool)
   \<Rightarrow> filesystem \<Rightarrow> (string \<Rightarrow> parse_exn + element) \<Rightarrow> string \<Rightarrow> string
   \<Rightarrow> error + 'f pyval reporte" where
  "procesar_xml_a_excel fl pad consola escritor fs et_parse carpeta_xml archivo_excel =
     (if \<not> isdir fs carpeta_xml then Inl FileNotFoundError
      else
        (let archivos = listar_xmls_recursivo fs carpeta_xml in
         case imprimir consola
                (Carpeta carpeta_xml # Encontrados (length archivos)
                 # map (\<lambda>f. Listado f carpeta_xml) archivos) [] of
           Inl e \<Rightarrow> Inl e
         | Inr salida \<Rightarrow>
             if archivos = [] then
               (case imprimir consola [SinArchivos] salida of
                  Inl e \<Rightarrow> Inl e
                | Inr salida \<Rightarrow>
                    (case exportar_excel consola escritor (DataFrame []) archivo_excel salida of
                       Inl e \<Rightarrow> Inl e
                     | Inr salida \<Rightarrow>
                         Inr \<lparr>excel = DataFrame [], destino = archivo_excel,
                              impresos = salida, retorno = None\<rparr>))
             else
               (case procesar_archivos fl pad consola et_parse archivos [] salida of
                  Inl e \<Rightarrow> Inl e
                | Inr (datos, salida) \<Rightarrow>
                    (case exportar_excel consola escritor (tabla datos) archivo_excel salida of
                       Inl e \<Rightarrow> Inl e
                     | Inr salida \<Rightarrow>
                         (case imprimir consola [Procesados (length datos)] salida of
                            Inl e \<Rightarrow> Inl e
                          | Inr salida \<Rightarrow>
                              Inr \<lparr>excel = tabla datos, destino = archivo_excel,
                                   impresos = salida, retorno = None\<rparr>)))))"

text \<open>
  \<^verbatim>\<open>procesar_xml_a_excel\<close> of \<^verbatim>\<open>leexmlpyN.py\<close>, which prints nothing, writes the table and
  returns the count.
\<close>

definition procesar_xml_a_excel_N ::
  "(string \<Rightarrow> 'f option) \<Rightarrow> bool \<Rightarrow> (string \<Rightarrow> ('f::{zero,plus}) pyval dataframe \<Rightarrow> bool)
   \<Rightarrow> filesystem \<Rightarrow> (string \<Rightarrow> parse_exn + element) \<Rightarrow> string \<Rightarrow> string
   \<Rightarrow> error + 'f pyval reporte" where
  "procesar_xml_a_excel_N fl pad escritor fs et_parse carpeta_xml archivo_excel =
     (if \<not> isdir fs carpeta_xml then Inl FileNotFoundError
      else
        (let archivos = listar_xmls_recursivo fs carpeta_xml;
             datos = procesar_archivos_N fl pad et_parse archivos [];
             df = tabla datos
         in if \<not> escritor archivo_excel df then Inl WriterError
            else Inr \<lparr>excel = df, destino = archivo_excel, impresos = [],
                      retorno = Some (length datos)\<rparr>))"

section \<open>The aggregates as the specification words them\<close>

text \<open>
  The running sum, in document order and from \<open>0\<close>, of the amounts of the entries whose
  tax code is \<open>code\<close>; the amount of an entry is \<^verbatim>\<open>to_float(entry.get('Importe'), 0)\<close>.
\<close>

definition suma_importes :: "(string \<Rightarrow> 'f option) \<Rightarrow> string \<Rightarrow> element list \<Rightarrow> 'f::{zero,plus}" where
  "suma_importes fl code entries =
     foldl (\<lambda>total e. total + to_float fl (elem_get e ''Importe'') 0) 0
       (filter (\<lambda>e. elem_get e ''Impuesto'' = Some code) entries)"

section \<open>The records and the header as the specification words them\<close>

text \<open>
  The records of the documents that parse, in the order of the paths, and the field
  vocabulary of a record.
\<close>

definition registros ::
  "(string \<Rightarrow> 'f option) \<Rightarrow> bool \<Rightarrow> (string \<Rightarrow> parse_exn + element) \<Rightarrow> string list
   \<Rightarrow> (string \<times> ('f::{zero,plus}) pyval) list list" where
  "registros fl pad et_parse archivos =
     map (\<lambda>p. comp_of fl pad (projr (et_parse p))) (filter (\<lambda>p. \<not> isl (et_parse p)) archivos)"

definition campos :: "string list" where
  "campos =
     [''RFC_EMISOR'', ''NOMBRE_EMISOR'', ''RFC_RECEPTOR'', ''NOMBRE_RECEPTOR'', ''FECHA'',
      ''SERIE'', ''FOLIO'', ''N.FACTURA'', ''SUBTOTAL'', ''T.FACTURA'', ''Moneda'',
      ''TipoDeComprobante'', ''MetodoPago'', ''FormaPago'', ''UsoCFDI'', ''TipoCambio'',
      ''IVA'', ''IEPS'', ''RISR'', ''RIVA'', ''UUID'', ''P-Monto'', ''M'']"

text \<open>The renamed canonical column list, and the row of a record under it.\<close>

definition encabezado :: "string list" where
  "encabezado = map (rename_col rename_map) column_order"


text \<open>
  Missing source data. An attribute is missing when its element is absent, or the element
  has no such attribute, or its value is empty. A number is missing when the attribute is
  absent or empty, or \<^verbatim>\<open>float\<close> rejects its value.
\<close>

definition sin_atributo :: "element option \<Rightarrow> string \<Rightarrow> bool" where
  "sin_atributo el a =
     (case el of None \<Rightarrow> True | Some e \<Rightarrow> elem_get e a = None \<or> elem_get e a = Some [])"

definition sin_numero :: "(string \<Rightarrow> 'f option) \<Rightarrow> string option \<Rightarrow> bool" where
  "sin_numero fl v = (case v of None \<Rightarrow> True | Some s \<Rightarrow> s = [] \<or> fl s = None)"

section \<open>The files under a directory\<close>

text \<open>
  A file name ends in \<^verbatim>\<open>.xml\<close> case-insensitively. \<open>archivo_bajo dirpath es p f\<close>: the
  directory \<open>dirpath\<close>, whose entries are \<open>es\<close>, holds an entry named \<open>f\<close> that is no
  directory, in itself or at any depth in the directories below it that are neither
  symbolic links nor unreadable, and \<open>p\<close> is its path; \<open>regular_bajo\<close> is the same for a
  regular file. \<open>bien_formado es\<close>: at every level the names are distinct, not empty and
  without a slash. \<open>mismo_contenido es es'\<close>: the two listings show the same tree, each
  directory listed in some order.
\<close>

definition es_xml :: "string \<Rightarrow> bool" where
  "es_xml f = endswith (py_lower f) ''.xml''"

inductive archivo_bajo :: "string \<Rightarrow> (string \<times> node) list \<Rightarrow> string \<Rightarrow> string \<Rightarrow> bool" where
  aqui: "(f, x) \<in> set es \<Longrightarrow> \<not> is_dir x \<Longrightarrow> archivo_bajo dirpath es (path_join dirpath f) f"
| abajo: "(name, Dir sub) \<in> set es \<Longrightarrow> archivo_bajo (path_join dirpath name) sub p f
          \<Longrightarrow> archivo_bajo dirpath es p f"

inductive regular_bajo :: "string \<Rightarrow> (string \<times> node) list \<Rightarrow> string \<Rightarrow> string \<Rightarrow> bool" where
  regular_aqui: "(f, File) \<in> set es \<Longrightarrow> regular_bajo dirpath es (path_join dirpath f) f"
| regular_abajo: "(name, Dir sub) \<in> set es \<Longrightarrow> regular_bajo (path_join dirpath name) sub p f
          \<Longrightarrow> regular_bajo dirpath es p f"

inductive bien_formado :: "(string \<times> node) list \<Rightarrow> bool" where
  "distinct (map fst es) \<Longrightarrow> (\<forall>n \<in> fst ` set es. n \<noteq> [] \<and> CHR ''/'' \<notin> set n)
   \<Longrightarrow> (\<forall>n sub. (n, Dir sub) \<in> set es \<longrightarrow> bien_formado sub) \<Longrightarrow> bien_formado es"

inductive mismo_contenido :: "(string \<times> node) list \<Rightarrow> (string \<times> node) list \<Rightarrow> bool" where
  vacio: "mismo_contenido [] []"
| entrada: "mismo_contenido es es' \<Longrightarrow> mismo_contenido ((name, x) # es) ((name, x) # es')"
| carpeta: "mismo_contenido sub sub' \<Longrightarrow> mismo_contenido es es'
            \<Longrightarrow> mismo_contenido ((name, Dir sub) # es) ((name, Dir sub') # es')"
| cambio: "mismo_contenido (a # b # es) (b # a # es)"
| luego: "mismo_contenido es es' \<Longrightarrow> mismo_contenido es' es'' \<Longrightarrow> mismo_contenido es es''"

text \<open>
  The paths that \<^verbatim>\<open>listar_xmls_recursivo\<close> collects, before it sorts them, and the path of a
  directory with the separator that \<^verbatim>\<open>os.path.join\<close> puts between it and a name.
\<close>

definition con_barra :: "string \<Rightarrow> string" where
  "con_barra d = (if d = [] \<or> endswith d ''/'' then d else d @ ''/'')"

definition paths_of :: "string \<Rightarrow> (string \<times> node) list \<Rightarrow> string list" where
  "paths_of d es = concat (map xml_paths (os_walk d es))"

section \<open>Date strings\<close>

text \<open>
  The number that a string of digits writes, and the date strings that begin with a
  calendar date in the extended format: four digits, a hyphen and two digits.
\<close>

definition digits_val :: "string \<Rightarrow> int" where
  "digits_val s = foldl (\<lambda>a c. 10 * a + digit_val c) 0 s"

definition fecha_extendida :: "string \<Rightarrow> bool" where
  "fecha_extendida s =
     (7 \<le> length s \<and> list_all is_ascii_digit (take 4 s) \<and> s ! 4 = CHR ''-''
      \<and> is_ascii_digit (s ! 5) \<and> is_ascii_digit (s ! 6))"

section \<open>Inputs for the examples\<close>

definition int_of_digits :: "string \<Rightarrow> int option" where
  "int_of_digits s =
     (if s \<noteq> [] \<and> list_all is_ascii_digit s
      then Some (foldl (\<lambda>a c. 10 * a + digit_val c) 0 s) else None)"

text \<open>
  A stand-in for \<^verbatim>\<open>float\<close> on the unsigned literals \<^verbatim>\<open>digits\<close> and \<^verbatim>\<open>digits.digits\<close>, in exact
  arithmetic; it is used to run the examples only.
\<close>

definition float_literal :: "string \<Rightarrow> rat option" where
  "float_literal s =
     (let ip = takeWhile (\<lambda>c. c \<noteq> CHR ''.'') s; fp = drop 1 (dropWhile (\<lambda>c. c \<noteq> CHR ''.'') s)
      in if CHR ''.'' \<in> set s
         then (case (int_of_digits ip, int_of_digits fp) of
                 (Some i, Some f) \<Rightarrow> Some (of_int i + of_int f / 10 ^ length fp)
               | _ \<Rightarrow> None)
         else map_option of_int (int_of_digits ip))"

definition cfdi4 :: string where
  "cfdi4 = ''http://www.sat.gob.mx/cfd/4''"

definition impuestos1 :: element where
  "impuestos1 =
     Element ''{http://www.sat.gob.mx/cfd/4}Impuestos'' []
       [Element ''{http://www.sat.gob.mx/cfd/4}Traslados'' []
          [Element ''{http://www.sat.gob.mx/cfd/4}Traslado'' [(''Impuesto'', ''002''), (''Importe'', ''160.00'')] [],
           Element ''{http://www.sat.gob.mx/cfd/4}Traslado'' [(''Impuesto'', ''003''), (''Importe'', ''20.00'')] [],
           Element ''{http://www.sat.gob.mx/cfd/4}Traslado'' [(''Impuesto'', ''099''), (''Importe'', ''5.00'')] []]]"

definition doc1 :: element where
  "doc1 =
     Element ''{http://www.sat.gob.mx/cfd/4}Comprobante''
       [(''Serie'', ''A''), (''Folio'', ''100''), (''Fecha'', ''2024-03-15T10:00:00Z''),
        (''Total'', ''1160.00''), (''Moneda'', ''MXN'')]
       [Element ''{http://www.sat.gob.mx/cfd/4}Emisor'' [(''Rfc'', ''AAA010101AAA'')] [],
        Element ''{http://www.sat.gob.mx/cfd/4}Receptor'' [(''Rfc'', ''BBB010101BBB''), (''Nombre'', ''Cliente'')] [],
        impuestos1]"

text \<open>
  A document with missing data of every kind: an issuer without tax identifier, an empty
  exchange rate, a subtotal that is no number, a date that is no ISO 8601 date, a payments
  complement without payment and a stamp with an empty identifier.
\<close>

definition doc3 :: element where
  "doc3 =
     Element ''{http://www.sat.gob.mx/cfd/4}Comprobante''
       [(''TipoCambio'', []), (''SubTotal'', ''abc''), (''Fecha'', ''15/03/2024'')]
       [Element ''{http://www.sat.gob.mx/cfd/4}Emisor'' [(''Nombre'', ''Proveedor'')] [],
        Element ''{http://www.sat.gob.mx/cfd/4}Complemento'' []
          [Element ''{http://www.sat.gob.mx/Pagos20}Pagos'' [] [],
           Element ''{http://www.sat.gob.mx/TimbreFiscalDigital}TimbreFiscalDigital'' [(''UUID'', [])] []]]"

text \<open>
  A corpus: a well-formed document, a file that is no XML, and in a subdirectory a second
  document with an upper-case suffix and a truncated file. The same tree listed in
  another order. An empty directory. And a directory with a FIFO named like a document and
  a symbolic link to a directory that holds one.
\<close>

definition doc2 :: element where
  "doc2 = Element ''Comprobante'' [] []"

definition entradas1 :: "(string \<times> node) list" where
  "entradas1 = [(''b.xml'', File), (''notas.txt'', File),
                (''sub'', Dir [(''roto.xml'', File), (''A.XML'', File)])]"

definition entradas2 :: "(string \<times> node) list" where
  "entradas2 = [(''notas.txt'', File), (''b.xml'', File),
                (''sub'', Dir [(''roto.xml'', File), (''A.XML'', File)])]"

definition entradas3 :: "(string \<times> node) list" where
  "entradas3 = [(''cola.xml'', Special), (''enlace'', Link_dir [(''c.xml'', File)])]"

definition fs1 :: filesystem where
  "fs1 = map_of
     [(''/xml'', Dir entradas1),
      (''/vacio'', Dir [(''leeme.txt'', File)]),
      (''/xml/b.xml'', File),
      (''/raro'', Dir entradas3)]"

definition fs2 :: filesystem where
  "fs2 = map_of [(''/xml'', Dir entradas2)]"

definition parse1 :: "string \<Rightarrow> parse_exn + element" where
  "parse1 p = (if p = ''/xml/b.xml'' then Inr doc1
               else if p = ''/xml/sub/A.XML'' then Inr doc2
               else if p = ''/xml/sub/roto.xml'' then Inl ParseError
               else Inl OtherException)"

text \<open>A console that prints everything, a writer that writes everything and one that fails.\<close>

definition consola_ok :: "mensaje \<Rightarrow> bool" where
  "consola_ok m = True"

definition escritor_ok :: "string \<Rightarrow> rat pyval dataframe \<Rightarrow> bool" where
  "escritor_ok archivo df = True"

definition escritor_falla :: "string \<Rightarrow> rat pyval dataframe \<Rightarrow> bool" where
  "escritor_falla archivo df = False"

text \<open>What \<^verbatim>\<open>leexmlpyN.py\<close> leaves behind on the corpus.\<close>

definition reporte1 :: "rat pyval reporte" where
  "reporte1 = projr (procesar_xml_a_excel_N float_literal True escritor_ok fs1 parse1 ''/xml'' ''reporte.xlsx'')"

section \<open>Properties\<close>

lemma py_strip_Nil: "py_strip cs [] = []"
  by (simp add: py_strip_def)

lemma py_strip_id:
  assumes "s \<noteq> []" and "hd s \<notin> cs" and "last s \<notin> cs"
  shows "py_strip cs s = s"
proof -
  from assms obtain c t where s: "s = c # t" by (cases s) auto
  with assms have d1: "dropWhile (\<lambda>c. c \<in> cs) s = s" by simp
  from assms have "rev s \<noteq> []" and "hd (rev s) \<notin> cs" by (simp_all add: hd_rev)
  then have "dropWhile (\<lambda>c. c \<in> cs) (rev s) = rev s" by (cases "rev s") auto
  with d1 show ?thesis by (simp add: py_strip_def)
qed

lemma py_strip_lead:
  assumes "c \<in> cs"
  shows "py_strip cs (c # s) = py_strip cs s"
  using assms by (simp add: py_strip_def)

lemma py_strip_trail:
  assumes "c \<in> cs" and "s \<noteq> []" and "hd s \<notin> cs"
  shows "py_strip cs (s @ [c]) = py_strip cs s"
proof -
  from assms obtain d t where s: "s = d # t" by (cases s) auto
  with assms have "dropWhile (\<lambda>c. c \<in> cs) (s @ [c]) = s @ [c]"
    and "dropWhile (\<lambda>c. c \<in> cs) s = s" by simp_all
  with assms show ?thesis by (simp add: py_strip_def)
qed

lemma py_strip_decomp:
  "\<exists>a b. s = a @ py_strip cs s @ b \<and> set a \<subseteq> cs \<and> set b \<subseteq> cs"
proof -
  define t where "t = dropWhile (\<lambda>c. c \<in> cs) s"
  have s: "s = takeWhile (\<lambda>c. c \<in> cs) s @ t" by (simp add: t_def)
  have e: "takeWhile (\<lambda>c. c \<in> cs) (rev t) @ dropWhile (\<lambda>c. c \<in> cs) (rev t) = rev t"
    by (rule takeWhile_dropWhile_id)
  have "rev (dropWhile (\<lambda>c. c \<in> cs) (rev t)) @ rev (takeWhile (\<lambda>c. c \<in> cs) (rev t))
      = rev (takeWhile (\<lambda>c. c \<in> cs) (rev t) @ dropWhile (\<lambda>c. c \<in> cs) (rev t))"
    by (simp only: rev_append)
  also have "\<dots> = rev (rev t)" by (simp only: e)
  also have "\<dots> = t" by simp
  finally have "t = rev (dropWhile (\<lambda>c. c \<in> cs) (rev t)) @ rev (takeWhile (\<lambda>c. c \<in> cs) (rev t))"
    by (rule sym)
  then have t: "t = py_strip cs s @ rev (takeWhile (\<lambda>c. c \<in> cs) (rev t))"
    by (simp only: py_strip_def t_def)
  have a: "set (takeWhile (\<lambda>c. c \<in> cs) s) \<subseteq> cs"
    by (auto dest: set_takeWhileD)
  have b: "set (rev (takeWhile (\<lambda>c. c \<in> cs) (rev t))) \<subseteq> cs"
    by (auto dest: set_takeWhileD)
  from s t have "s = takeWhile (\<lambda>c. c \<in> cs) s @ py_strip cs s @ rev (takeWhile (\<lambda>c. c \<in> cs) (rev t))"
    by simp
  with a b show ?thesis by blast
qed

lemma py_strip_ends:
  assumes "py_strip cs s \<noteq> []"
  shows "hd (py_strip cs s) \<notin> cs \<and> last (py_strip cs s) \<notin> cs"
proof -
  define t where "t = dropWhile (\<lambda>c. c \<in> cs) s"
  define u where "u = dropWhile (\<lambda>c. c \<in> cs) (rev t)"
  have p: "py_strip cs s = rev u" by (simp add: py_strip_def t_def u_def)
  with assms have u: "u \<noteq> []" by simp
  then have "hd u \<notin> cs" unfolding u_def by (rule hd_dropWhile)
  with u p have l: "last (py_strip cs s) \<notin> cs" by (simp add: last_rev)
  from u have t: "t \<noteq> []" by (auto simp: u_def)
  then have ht: "hd t \<notin> cs" unfolding t_def by (rule hd_dropWhile)
  have "rev t = takeWhile (\<lambda>c. c \<in> cs) (rev t) @ u" by (simp add: u_def)
  with u have "last (rev t) = last u" by (metis last_appendR)
  with t u p ht have "hd (py_strip cs s) \<notin> cs" by (simp add: hd_rev last_rev)
  with l show ?thesis by simp
qed

text \<open>
  C3, as the code has it. The derived invoice number is the series, a \<^verbatim>\<open>-\<close> and the folio
  concatenated, with every leading and every trailing \<^verbatim>\<open>-\<close> of the concatenation stripped,
  also those of a series or a folio that is not empty: what is stripped at either end are
  hyphens only, and what remains neither begins nor ends with one. So a series that does
  not begin and a folio that does not end with the separator give \<open>series-folio\<close>, an empty
  series gives such a folio, an empty folio gives such a series, both empty give the empty
  string; series \<^verbatim>\<open>A\<close> and folio \<^verbatim>\<open>100\<close> give \<^verbatim>\<open>A-100\<close>, an empty series and folio \<^verbatim>\<open>100\<close> give
  \<^verbatim>\<open>100\<close>.
\<close>

theorem n_factura_stripped:
  "(\<exists>a b. serie @ ''-'' @ folio = a @ n_factura serie folio @ b
           \<and> set a \<subseteq> {CHR ''-''} \<and> set b \<subseteq> {CHR ''-''})
   \<and> (n_factura serie folio \<noteq> []
        \<longrightarrow> hd (n_factura serie folio) \<noteq> CHR ''-'' \<and> last (n_factura serie folio) \<noteq> CHR ''-'')
   \<and> (serie \<noteq> [] \<and> hd serie \<noteq> CHR ''-'' \<and> folio \<noteq> [] \<and> last folio \<noteq> CHR ''-''
        \<longrightarrow> n_factura serie folio = serie @ ''-'' @ folio)
   \<and> (folio \<noteq> [] \<and> hd folio \<noteq> CHR ''-'' \<and> last folio \<noteq> CHR ''-''
        \<longrightarrow> n_factura [] folio = folio)
   \<and> (serie \<noteq> [] \<and> hd serie \<noteq> CHR ''-'' \<and> last serie \<noteq> CHR ''-''
        \<longrightarrow> n_factura serie [] = serie)
   \<and> n_factura [] [] = []
   \<and> n_factura ''A'' ''100'' = ''A-100''
   \<and> n_factura [] ''100'' = ''100''"
proof -
  have z: "\<exists>a b. serie @ ''-'' @ folio = a @ n_factura serie folio @ b
           \<and> set a \<subseteq> {CHR ''-''} \<and> set b \<subseteq> {CHR ''-''}"
    unfolding n_factura_def by (rule py_strip_decomp)
  have y: "n_factura serie folio \<noteq> []
        \<longrightarrow> hd (n_factura serie folio) \<noteq> CHR ''-'' \<and> last (n_factura serie folio) \<noteq> CHR ''-''"
    using py_strip_ends [of "{CHR ''-''}" "serie @ ''-'' @ folio"] by (simp add: n_factura_def)
  have a: "serie \<noteq> [] \<and> hd serie \<noteq> CHR ''-'' \<and> folio \<noteq> [] \<and> last folio \<noteq> CHR ''-''
        \<longrightarrow> n_factura serie folio = serie @ ''-'' @ folio"
    by (simp add: n_factura_def py_strip_id)
  have b: "folio \<noteq> [] \<and> hd folio \<noteq> CHR ''-'' \<and> last folio \<noteq> CHR ''-''
        \<longrightarrow> n_factura [] folio = folio"
    by (simp add: n_factura_def py_strip_lead py_strip_id)
  have c: "serie \<noteq> [] \<and> hd serie \<noteq> CHR ''-'' \<and> last serie \<noteq> CHR ''-''
        \<longrightarrow> n_factura serie [] = serie"
    by (simp add: n_factura_def py_strip_trail py_strip_id)
  have d: "n_factura [] [] = []" by (simp add: n_factura_def py_strip_def)
  have e: "n_factura ''A'' ''100'' = ''A-100''" by (simp add: n_factura_def py_strip_def)
  have f: "n_factura [] ''100'' = ''100''" by (simp add: n_factura_def py_strip_def)
  show ?thesis
    by (rule conjI [OF z conjI [OF y conjI [OF a conjI [OF b conjI [OF c conjI [OF d conjI [OF e f]]]]]]])
qed

theorem n_factura_stripped_witness:
  "n_factura ''-A'' ''5'' \<noteq> [] \<and> hd (n_factura ''-A'' ''5'') \<noteq> CHR ''-''
   \<and> n_factura ''B'' ''7'' = ''B-7'' \<and> n_factura [] ''7'' = ''7'' \<and> n_factura ''B'' [] = ''B''"
proof -
  have h: "n_factura ''-A'' ''5'' \<noteq> []" by code_simp
  note t = n_factura_stripped [of "''-A''" "''5''"]
  note u = n_factura_stripped [of "''B''" "''7''"]
  from t [THEN conjunct2, THEN conjunct1] h
  have a: "hd (n_factura ''-A'' ''5'') \<noteq> CHR ''-''" by simp
  from u [THEN conjunct2, THEN conjunct2, THEN conjunct1]
  have b: "n_factura ''B'' ''7'' = ''B-7''" by simp
  from u [THEN conjunct2, THEN conjunct2, THEN conjunct2, THEN conjunct1]
  have c: "n_factura [] ''7'' = ''7''" by simp
  from u [THEN conjunct2, THEN conjunct2, THEN conjunct2, THEN conjunct2, THEN conjunct1]
  have d: "n_factura ''B'' [] = ''B''" by simp
  show ?thesis by (rule conjI [OF h conjI [OF a conjI [OF b conjI [OF c d]]]])
qed

text \<open>
  C3, as the specification states it, fails on the series \<^verbatim>\<open>-A\<close> and the folio \<^verbatim>\<open>5\<close>, neither
  of them empty: the invoice number is \<^verbatim>\<open>A-5\<close>, not the concatenation \<^verbatim>\<open>-A-5\<close>.
\<close>

theorem n_factura_stripped_counterexample:
  "''-A'' \<noteq> [] \<and> ''5'' \<noteq> [] \<and> n_factura ''-A'' ''5'' = ''A-5''
   \<and> n_factura ''-A'' ''5'' \<noteq> ''-A'' @ ''-'' @ ''5''"
  by code_simp

text \<open>
  C6. \<^verbatim>\<open>to_float\<close> is total (it never raises): it returns the default when the value is
  absent or the empty string, the parsed number when \<^verbatim>\<open>float\<close> accepts the string, and the
  default when \<^verbatim>\<open>float\<close> rejects it.
\<close>

theorem to_float_default:
  "to_float fl None d = d
   \<and> to_float fl (Some []) d = d
   \<and> (s \<noteq> [] \<and> fl s = Some v \<longrightarrow> to_float fl (Some s) d = v)
   \<and> (fl s = None \<longrightarrow> to_float fl (Some s) d = d)"
  by (simp add: to_float_def)

theorem to_float_default_witness:
  "to_float float_literal (Some ''160.00'') 0 = 160 \<and> to_float float_literal (Some ''16O'') 7 = 7"
proof -
  have a: "''160.00'' \<noteq> [] \<and> float_literal ''160.00'' = Some 160"
    by (simp add: float_literal_def int_of_digits_def is_ascii_digit_def digit_val_def)
  have b: "float_literal ''16O'' = None"
    by (simp add: float_literal_def int_of_digits_def is_ascii_digit_def digit_val_def)
  from a to_float_default [of float_literal 0 "''160.00''" 160]
  have "to_float float_literal (Some ''160.00'') 0 = 160" by blast
  moreover from b to_float_default [of float_literal 7 "''16O''"]
  have "to_float float_literal (Some ''16O'') 7 = 7" by blast
  ultimately show ?thesis by blast
qed

lemma traslados_loop_foldl:
  "traslados_loop fl es (a, b) =
     (foldl (\<lambda>total e. total + to_float fl (elem_get e ''Importe'') 0) a
        (filter (\<lambda>e. elem_get e ''Impuesto'' = Some ''002'') es),
      foldl (\<lambda>total e. total + to_float fl (elem_get e ''Importe'') 0) b
        (filter (\<lambda>e. elem_get e ''Impuesto'' = Some ''003'') es))"
  by (induction es arbitrary: a b) (simp_all add: Let_def)

lemma retenciones_loop_foldl:
  "retenciones_loop fl es (a, b) =
     (foldl (\<lambda>total e. total + to_float fl (elem_get e ''Importe'') 0) a
        (filter (\<lambda>e. elem_get e ''Impuesto'' = Some ''001'') es),
      foldl (\<lambda>total e. total + to_float fl (elem_get e ''Importe'') 0) b
        (filter (\<lambda>e. elem_get e ''Impuesto'' = Some ''002'') es))"
  by (induction es arbitrary: a b) (simp_all add: Let_def)

text \<open>
  C2. When the taxes container is located, the four aggregates are the running sums, in
  document order, over its entries: the transferred entries of code \<^verbatim>\<open>002\<close> make the VAT
  aggregate and those of code \<^verbatim>\<open>003\<close> the excise aggregate, the withheld entries of code
  \<^verbatim>\<open>001\<close> make the income-tax aggregate and those of code \<^verbatim>\<open>002\<close> the withheld-VAT
  aggregate; entries of any other code are in no sum. Without a container the four
  aggregates are \<open>0\<close>.
\<close>

theorem impuestos_totales_sums:
  "(elem_find (qname cfdi_uri ''Impuestos'') root_el = Some impuestos \<longrightarrow>
      impuestos_totales fl cfdi_uri root_el =
        (suma_importes fl ''002'' (elem_findall (qname cfdi_uri ''Traslado'') impuestos),
         suma_importes fl ''003'' (elem_findall (qname cfdi_uri ''Traslado'') impuestos),
         suma_importes fl ''001'' (elem_findall (qname cfdi_uri ''Retencion'') impuestos),
         suma_importes fl ''002'' (elem_findall (qname cfdi_uri ''Retencion'') impuestos)))
   \<and> (elem_find (qname cfdi_uri ''Impuestos'') root_el = None \<longrightarrow>
      impuestos_totales fl cfdi_uri root_el = (0, 0, 0, 0))"
  by (simp add: impuestos_totales_def suma_importes_def traslados_loop_foldl retenciones_loop_foldl)

theorem impuestos_totales_sums_witness:
  "elem_find (qname cfdi4 ''Impuestos'') doc1 = Some impuestos1
   \<and> impuestos_totales float_literal cfdi4 doc1 = (160, 20, 0, 0)"
proof -
  have h: "elem_find (qname cfdi4 ''Impuestos'') doc1 = Some impuestos1"
    by (simp add: cfdi4_def doc1_def impuestos1_def elem_find_def elem_findall_def descendants_def
        qname_def tag_selects_def is_wildcard_tag_def)
  with impuestos_totales_sums [of cfdi4 doc1 impuestos1 float_literal]
  have "impuestos_totales float_literal cfdi4 doc1 =
        (suma_importes float_literal ''002'' (elem_findall (qname cfdi4 ''Traslado'') impuestos1),
         suma_importes float_literal ''003'' (elem_findall (qname cfdi4 ''Traslado'') impuestos1),
         suma_importes float_literal ''001'' (elem_findall (qname cfdi4 ''Retencion'') impuestos1),
         suma_importes float_literal ''002'' (elem_findall (qname cfdi4 ''Retencion'') impuestos1))"
    by blast
  also have "\<dots> = (160, 20, 0, 0)"
    by (simp add: cfdi4_def impuestos1_def suma_importes_def elem_findall_def descendants_def
        qname_def tag_selects_def is_wildcard_tag_def elem_get_def to_float_def float_literal_def
        int_of_digits_def is_ascii_digit_def digit_val_def)
  finally show ?thesis using h by simp
qed

lemma procesar_archivos_N_registros:
  "procesar_archivos_N fl pad et_parse archivos datos = datos @ registros fl pad et_parse archivos"
  by (induction archivos arbitrary: datos)
     (auto simp: registros_def split: sum.splits parse_exn.splits)

lemma imprimir_cases:
  "imprimir consola ms salida = Inr (salida @ ms) \<or> imprimir consola ms salida = Inl ConsoleError"
  by (simp add: imprimir_def)



lemma procesar_archivos_Inr:
  "procesar_archivos fl pad consola et_parse archivos datos salida = Inr (datos', salida')
   \<Longrightarrow> datos' = datos @ registros fl pad et_parse archivos"
proof (induction archivos arbitrary: datos salida)
  case Nil
  then show ?case by (simp add: registros_def)
next
  case (Cons p ps)
  from Cons.prems obtain s1 where s1: "imprimir consola [Procesando p] salida = Inr s1"
    by (auto split: sum.splits)
  show ?case
  proof (cases "et_parse p")
    case (Inr root_el)
    with Cons.prems s1
    have "procesar_archivos fl pad consola et_parse ps (datos @ [comp_of fl pad root_el]) s1 = Inr (datos', salida')"
      by simp
    from Cons.IH [OF this] Inr show ?thesis by (simp add: registros_def)
  next
    case (Inl x)
    show ?thesis
    proof (cases x)
      case ParseError
      with Inl Cons.prems s1 obtain s2 where
        "procesar_archivos fl pad consola et_parse ps datos s2 = Inr (datos', salida')"
        by (auto split: sum.splits)
      from Cons.IH [OF this] Inl show ?thesis by (simp add: registros_def)
    next
      case OtherException
      with Inl Cons.prems s1 obtain s2 where
        "procesar_archivos fl pad consola et_parse ps datos s2 = Inr (datos', salida')"
        by (auto split: sum.splits)
      from Cons.IH [OF this] Inl show ?thesis by (simp add: registros_def)
    qed
  qed
qed



lemma DataFrame_Nil: "DataFrame [] = \<lparr>columns = [], rows = []\<rparr>"
  by (simp add: DataFrame_def)

lemma tabla_Nil: "tabla [] = \<lparr>columns = [], rows = []\<rparr>"
  by (simp add: tabla_def DataFrame_def df_empty_def df_rename_def)


lemma excel_procesar:
  assumes "procesar_xml_a_excel fl pad consola escritor fs et_parse carpeta archivo = Inr r"
  shows "excel r = tabla (registros fl pad et_parse (listar_xmls_recursivo fs carpeta))"
proof (cases "listar_xmls_recursivo fs carpeta = []")
  case True
  with assms have "excel r = DataFrame []"
    by (auto simp: procesar_xml_a_excel_def Let_def split: if_splits sum.splits)
  with True show ?thesis by (simp add: DataFrame_Nil tabla_Nil registros_def)
next
  case False
  with assms obtain s0 datos s1 where
    p: "procesar_archivos fl pad consola et_parse (listar_xmls_recursivo fs carpeta) [] s0 = Inr (datos, s1)"
    and e: "excel r = tabla datos"
    by (auto simp: procesar_xml_a_excel_def Let_def split: if_splits sum.splits prod.splits)
  from procesar_archivos_Inr [OF p] e show ?thesis by simp
qed

lemma excel_procesar_N:
  assumes "procesar_xml_a_excel_N fl pad escritor fs et_parse carpeta archivo = Inr r"
  shows "excel r = tabla (registros fl pad et_parse (listar_xmls_recursivo fs carpeta))"
  using assms
  by (auto simp: procesar_xml_a_excel_N_def Let_def procesar_archivos_N_registros split: if_splits)








lemma keys_comp_of: "map fst (comp_of fl pad root_el) = campos"
  by (simp add: comp_of_def Let_def campos_def case_prod_beta)

lemma registros_campos: "\<forall>c \<in> set (registros fl pad et_parse archivos). map fst c = campos"
  by (auto simp: registros_def keys_comp_of)








text \<open>
  C8, as the code has it. On an existing directory without \<^verbatim>\<open>.xml\<close> files both scripts hand
  the writer the empty table: no data row and no column, so the header is empty.
  \<^verbatim>\<open>leexmlpyN.py\<close> returns the count \<open>0\<close> when the writer succeeds and raises when the writer
  raises. \<^verbatim>\<open>leexmlpy.py\<close> prints the directory, that \<open>0\<close> files were found and that there are
  none, writes, prints that the report was generated and returns early, before it would
  print the count of processed files; it raises when one of the messages or the writer
  raises.
\<close>

theorem procesar_sin_xml:
  "isdir fs carpeta \<and> listar_xmls_recursivo fs carpeta = [] \<longrightarrow>
     procesar_xml_a_excel fl pad consola escritor fs et_parse carpeta archivo =
       (if \<not> (consola (Carpeta carpeta) \<and> consola (Encontrados 0) \<and> consola SinArchivos)
        then Inl ConsoleError
        else if \<not> escritor archivo \<lparr>columns = [], rows = []\<rparr> then Inl WriterError
        else if \<not> consola (Generado archivo) then Inl ConsoleError
        else Inr \<lparr>excel = \<lparr>columns = [], rows = []\<rparr>, destino = archivo,
                  impresos = [Carpeta carpeta, Encontrados 0, SinArchivos, Generado archivo],
                  retorno = None\<rparr>)
     \<and> procesar_xml_a_excel_N fl pad escritor' fs et_parse carpeta archivo =
       (if \<not> escritor' archivo \<lparr>columns = [], rows = []\<rparr> then Inl WriterError
        else Inr \<lparr>excel = \<lparr>columns = [], rows = []\<rparr>, destino = archivo, impresos = [],
                  retorno = Some 0\<rparr>)"
  by (simp add: procesar_xml_a_excel_def procesar_xml_a_excel_N_def Let_def DataFrame_Nil
      tabla_Nil imprimir_def exportar_excel_def)

theorem procesar_sin_xml_witness:
  "isdir fs1 ''/vacio'' \<and> listar_xmls_recursivo fs1 ''/vacio'' = []
   \<and> procesar_xml_a_excel float_literal True consola_ok escritor_ok fs1 parse1 ''/vacio'' ''r.xlsx'' =
       Inr \<lparr>excel = \<lparr>columns = [], rows = []\<rparr>, destino = ''r.xlsx'',
             impresos = [Carpeta ''/vacio'', Encontrados 0, SinArchivos, Generado ''r.xlsx''],
             retorno = None\<rparr>
   \<and> procesar_xml_a_excel_N float_literal True escritor_falla fs1 parse1 ''/vacio'' ''r.xlsx'' =
       Inl WriterError"
proof -
  have h1: "isdir fs1 ''/vacio''" by code_simp
  have h2: "listar_xmls_recursivo fs1 ''/vacio'' = []" by code_simp
  have "isdir fs1 ''/vacio'' \<and> listar_xmls_recursivo fs1 ''/vacio'' = []"
    using h1 h2 by (rule conjI)
  with procesar_sin_xml [where fs = fs1 and carpeta = "''/vacio''" and fl = float_literal
      and pad = True and et_parse = parse1 and consola = consola_ok and escritor = escritor_ok
      and escritor' = escritor_falla and archivo = "''r.xlsx''"]
  have "procesar_xml_a_excel float_literal True consola_ok escritor_ok fs1 parse1 ''/vacio'' ''r.xlsx'' =
       (if \<not> (consola_ok (Carpeta ''/vacio'') \<and> consola_ok (Encontrados 0) \<and> consola_ok SinArchivos)
        then Inl ConsoleError
        else if \<not> escritor_ok ''r.xlsx'' \<lparr>columns = [], rows = []\<rparr> then Inl WriterError
        else if \<not> consola_ok (Generado ''r.xlsx'') then Inl ConsoleError
        else Inr \<lparr>excel = \<lparr>columns = [], rows = []\<rparr>, destino = ''r.xlsx'',
                  impresos = [Carpeta ''/vacio'', Encontrados 0, SinArchivos, Generado ''r.xlsx''],
                  retorno = None\<rparr>)
     \<and> procesar_xml_a_excel_N float_literal True escritor_falla fs1 parse1 ''/vacio'' ''r.xlsx'' =
       (if \<not> escritor_falla ''r.xlsx'' \<lparr>columns = [], rows = []\<rparr> then Inl WriterError
        else Inr \<lparr>excel = \<lparr>columns = [], rows = []\<rparr>, destino = ''r.xlsx'', impresos = [],
                  retorno = Some 0\<rparr>)"
    by (rule mp)
  then have "procesar_xml_a_excel float_literal True consola_ok escritor_ok fs1 parse1 ''/vacio'' ''r.xlsx'' =
       Inr \<lparr>excel = \<lparr>columns = [], rows = []\<rparr>, destino = ''r.xlsx'',
             impresos = [Carpeta ''/vacio'', Encontrados 0, SinArchivos, Generado ''r.xlsx''],
             retorno = None\<rparr>
     \<and> procesar_xml_a_excel_N float_literal True escritor_falla fs1 parse1 ''/vacio'' ''r.xlsx'' =
       Inl WriterError"
    by (simp add: consola_ok_def escritor_ok_def escritor_falla_def)
  with h1 h2 show ?thesis by simp
qed

text \<open>
  C8, as the specification states it, fails on the directory \<^verbatim>\<open>/vacio\<close>, which holds no \<^verbatim>\<open>.xml\<close>
  file: with a console and a writer that never raise, both scripts return, and the header
  of the exported table is empty, not the renamed canonical column list. And with a
  writer that raises, both scripts raise.
\<close>

theorem procesar_sin_xml_counterexample:
  "isdir fs1 ''/vacio'' \<and> listar_xmls_recursivo fs1 ''/vacio'' = []
   \<and> \<not> isl (procesar_xml_a_excel float_literal True consola_ok escritor_ok fs1 parse1 ''/vacio'' ''r.xlsx'')
   \<and> \<not> isl (procesar_xml_a_excel_N float_literal True escritor_ok fs1 parse1 ''/vacio'' ''r.xlsx'')
   \<and> columns (excel (projr (procesar_xml_a_excel float_literal True consola_ok escritor_ok fs1 parse1 ''/vacio'' ''r.xlsx''))) = []
   \<and> columns (excel (projr (procesar_xml_a_excel_N float_literal True escritor_ok fs1 parse1 ''/vacio'' ''r.xlsx''))) = []
   \<and> encabezado \<noteq> []
   \<and> procesar_xml_a_excel float_literal True consola_ok escritor_falla fs1 parse1 ''/vacio'' ''r.xlsx''
       = Inl WriterError
   \<and> procesar_xml_a_excel_N float_literal True escritor_falla fs1 parse1 ''/vacio'' ''r.xlsx''
       = Inl WriterError"
  by code_simp

lemma DataFrame_rows_Nil: "rows (DataFrame datos) = [] \<Longrightarrow> columns (DataFrame datos) = []"
  by (simp add: DataFrame_def Let_def)

lemma columns_tabla: "set (columns (tabla datos)) \<subseteq> set encabezado"
proof (cases "df_empty (DataFrame datos)")
  case True
  then have "columns (DataFrame datos) = []"
    using DataFrame_rows_Nil by (auto simp: df_empty_def)
  with True show ?thesis
    by (simp add: tabla_def Let_def df_rename_def)
next
  case False
  then have "columns (tabla datos) =
      map (rename_col rename_map) (filter (\<lambda>c. c \<in> set (columns (DataFrame datos))) column_order)"
    by (simp add: tabla_def Let_def df_rename_def df_select_def)
  then show ?thesis by (auto simp: encabezado_def)
qed

lemma columns_procesar:
  assumes "procesar_xml_a_excel fl pad consola escritor fs et_parse carpeta archivo = Inr r"
  shows "set (columns (excel r)) \<subseteq> set encabezado"
  using excel_procesar [OF assms] by (simp add: columns_tabla)

lemma columns_procesar_N:
  assumes "procesar_xml_a_excel_N fl pad escritor fs et_parse carpeta archivo = Inr r"
  shows "set (columns (excel r)) \<subseteq> set encabezado"
  using excel_procesar_N [OF assms] by (simp add: columns_tabla)

lemma encabezado_sin: "''NOMBRE_RECEPTOR'' \<notin> set encabezado \<and> ''Moneda'' \<notin> set encabezado"
  by code_simp

text \<open>
  C10. Every record has a receiver-name field and a currency field, read from the
  document. The exported table has neither column, whatever the records are: its columns
  are among the renamed canonical columns, where neither name occurs. So no run of
  either script exports a receiver-name or a currency column.
\<close>

theorem tabla_sin_receptor_ni_moneda:
  "map_of (comp_of fl pad root_el) ''NOMBRE_RECEPTOR'' =
     Some (PStr (get_attrib (elem_find (qname (cfdi_uri_of root_el) ''Receptor'') root_el) ''Nombre'' []))
   \<and> map_of (comp_of fl pad root_el) ''Moneda'' =
     Some (PStr (py_or (elem_get_default root_el ''Moneda'' []) []))
   \<and> ''NOMBRE_RECEPTOR'' \<notin> set (columns (tabla datos))
   \<and> ''Moneda'' \<notin> set (columns (tabla datos))
   \<and> (procesar_xml_a_excel fl pad consola escritor fs et_parse carpeta archivo = Inr r \<longrightarrow>
        ''NOMBRE_RECEPTOR'' \<notin> set (columns (excel r)) \<and> ''Moneda'' \<notin> set (columns (excel r)))
   \<and> (procesar_xml_a_excel_N fl pad escritor' fs et_parse carpeta archivo' = Inr r' \<longrightarrow>
        ''NOMBRE_RECEPTOR'' \<notin> set (columns (excel r')) \<and> ''Moneda'' \<notin> set (columns (excel r')))"
proof -
  have a: "map_of (comp_of fl pad root_el) ''NOMBRE_RECEPTOR'' =
     Some (PStr (get_attrib (elem_find (qname (cfdi_uri_of root_el) ''Receptor'') root_el) ''Nombre'' []))"
    by (simp add: comp_of_def Let_def case_prod_beta)
  have b: "map_of (comp_of fl pad root_el) ''Moneda'' =
     Some (PStr (py_or (elem_get_default root_el ''Moneda'' []) []))"
    by (simp add: comp_of_def Let_def case_prod_beta)
  have c: "''NOMBRE_RECEPTOR'' \<notin> set (columns (tabla datos)) \<and> ''Moneda'' \<notin> set (columns (tabla datos))"
    using columns_tabla [of datos] encabezado_sin by blast
  have d: "procesar_xml_a_excel fl pad consola escritor fs et_parse carpeta archivo = Inr r \<longrightarrow>
        ''NOMBRE_RECEPTOR'' \<notin> set (columns (excel r)) \<and> ''Moneda'' \<notin> set (columns (excel r))"
    using columns_procesar [of fl pad consola escritor fs et_parse carpeta archivo r] encabezado_sin by blast
  have e: "procesar_xml_a_excel_N fl pad escritor' fs et_parse carpeta archivo' = Inr r' \<longrightarrow>
        ''NOMBRE_RECEPTOR'' \<notin> set (columns (excel r')) \<and> ''Moneda'' \<notin> set (columns (excel r'))"
    using columns_procesar_N [of fl pad escritor' fs et_parse carpeta archivo' r'] encabezado_sin by blast
  from c have c1: "''NOMBRE_RECEPTOR'' \<notin> set (columns (tabla datos))"
    and c2: "''Moneda'' \<notin> set (columns (tabla datos))" by simp_all
  show ?thesis
    by (rule conjI [OF a conjI [OF b conjI [OF c1 conjI [OF c2 conjI [OF d e]]]]])
qed

theorem tabla_sin_receptor_ni_moneda_witness:
  "procesar_xml_a_excel_N float_literal True escritor_ok fs1 parse1 ''/xml'' ''reporte.xlsx'' = Inr reporte1
   \<and> map_of (comp_of float_literal True doc1) ''NOMBRE_RECEPTOR'' = Some (PStr ''Cliente'')
   \<and> map_of (comp_of float_literal True doc1) ''Moneda'' = Some (PStr ''MXN'')
   \<and> ''NOMBRE_RECEPTOR'' \<notin> set (columns (excel reporte1))
   \<and> ''Moneda'' \<notin> set (columns (excel reporte1))"
proof -
  have h: "procesar_xml_a_excel_N float_literal True escritor_ok fs1 parse1 ''/xml'' ''reporte.xlsx'' = Inr reporte1"
    by code_simp
  note t = tabla_sin_receptor_ni_moneda [where fl = float_literal and pad = True
      and root_el = doc1 and fs = fs1 and et_parse = parse1 and carpeta = "''/xml''"
      and escritor' = escritor_ok and archivo' = "''reporte.xlsx''" and r' = reporte1]
  have v1: "get_attrib (elem_find (qname (cfdi_uri_of doc1) ''Receptor'') doc1) ''Nombre'' [] = ''Cliente''"
    by code_simp
  have v2: "py_or (elem_get_default doc1 ''Moneda'' []) [] = ''MXN''"
    by code_simp
  from t [THEN conjunct1] v1
  have a: "map_of (comp_of float_literal True doc1) ''NOMBRE_RECEPTOR'' = Some (PStr ''Cliente'')"
    by simp
  from t [THEN conjunct2, THEN conjunct1] v2
  have b: "map_of (comp_of float_literal True doc1) ''Moneda'' = Some (PStr ''MXN'')"
    by simp
  from t [THEN conjunct2, THEN conjunct2, THEN conjunct2, THEN conjunct2, THEN conjunct2] h
  have c: "''NOMBRE_RECEPTOR'' \<notin> set (columns (excel reporte1))
      \<and> ''Moneda'' \<notin> set (columns (excel reporte1))"
    by (rule mp)
  show ?thesis
    by (rule conjI [OF h conjI [OF a conjI [OF b c]]])
qed

lemma get_attrib_sin: "sin_atributo el a \<Longrightarrow> get_attrib el a [] = []"
  by (auto simp: sin_atributo_def get_attrib_def py_or_def elem_get_default_def elem_get_def
      split: option.splits)

lemma root_get_sin:
  "sin_atributo (Some e) a \<Longrightarrow> py_or (elem_get_default e a dflt) dflt = dflt"
  by (auto simp: sin_atributo_def py_or_def elem_get_default_def elem_get_def split: option.splits)

lemma to_float_sin: "sin_numero fl v \<Longrightarrow> to_float fl v dflt = dflt"
  by (auto simp: sin_numero_def to_float_def split: option.splits)

lemma mes_Nil: "mes pad [] = []"
  by (simp add: mes_def parse_fecha_iso_def)

lemma mes_None: "parse_fecha_iso fecha = None \<Longrightarrow> mes pad fecha = []"
  by (simp add: mes_def)

lemma n_factura_Nil: "n_factura [] [] = []"
  by (simp add: n_factura_def py_strip_def)

lemma impuestos_totales_None:
  "elem_find (qname cfdi_uri ''Impuestos'') root_el = None
   \<Longrightarrow> impuestos_totales fl cfdi_uri root_el = (0, 0, 0, 0)"
  by (simp add: impuestos_totales_def)

lemma impuestos_totales_sin_traslados:
  "elem_find (qname cfdi_uri ''Impuestos'') root_el = Some imp
   \<Longrightarrow> elem_findall (qname cfdi_uri ''Traslado'') imp = []
   \<Longrightarrow> fst (impuestos_totales fl cfdi_uri root_el) = 0
       \<and> fst (snd (impuestos_totales fl cfdi_uri root_el)) = 0"
  by (simp add: impuestos_totales_def case_prod_beta)

lemma impuestos_totales_sin_retenciones:
  "elem_find (qname cfdi_uri ''Impuestos'') root_el = Some imp
   \<Longrightarrow> elem_findall (qname cfdi_uri ''Retencion'') imp = []
   \<Longrightarrow> fst (snd (snd (impuestos_totales fl cfdi_uri root_el))) = 0
       \<and> snd (snd (snd (impuestos_totales fl cfdi_uri root_el))) = 0"
  by (simp add: impuestos_totales_def case_prod_beta)

lemma pago_monto_sin:
  "elem_find (qname URI_PAGO20 ''Pagos'') root_el = None
   \<or> (\<exists>pagos. elem_find (qname URI_PAGO20 ''Pagos'') root_el = Some pagos
         \<and> elem_find (qname URI_PAGO20 ''Pago'') pagos = None)
   \<or> (\<exists>pagos pago. elem_find (qname URI_PAGO20 ''Pagos'') root_el = Some pagos
         \<and> elem_find (qname URI_PAGO20 ''Pago'') pagos = Some pago
         \<and> sin_numero fl (elem_get pago ''Monto''))
   \<Longrightarrow> pago_monto fl root_el = 0"
  by (auto simp: pago_monto_def to_float_sin)

lemma comp_of_lookup:
  "map_of (comp_of fl pad root_el) ''RFC_EMISOR''
     = Some (PStr (get_attrib (elem_find (qname (cfdi_uri_of root_el) ''Emisor'') root_el) ''Rfc'' []))"
  "map_of (comp_of fl pad root_el) ''NOMBRE_EMISOR''
     = Some (PStr (get_attrib (elem_find (qname (cfdi_uri_of root_el) ''Emisor'') root_el) ''Nombre'' []))"
  "map_of (comp_of fl pad root_el) ''RFC_RECEPTOR''
     = Some (PStr (get_attrib (elem_find (qname (cfdi_uri_of root_el) ''Receptor'') root_el) ''Rfc'' []))"
  "map_of (comp_of fl pad root_el) ''NOMBRE_RECEPTOR''
     = Some (PStr (get_attrib (elem_find (qname (cfdi_uri_of root_el) ''Receptor'') root_el) ''Nombre'' []))"
  "map_of (comp_of fl pad root_el) ''UsoCFDI''
     = Some (PStr (get_attrib (elem_find (qname (cfdi_uri_of root_el) ''Receptor'') root_el) ''UsoCFDI'' []))"
  "map_of (comp_of fl pad root_el) ''UUID''
     = Some (PStr (get_attrib (elem_find (qname URI_TFD ''TimbreFiscalDigital'') root_el) ''UUID'' []))"
  "map_of (comp_of fl pad root_el) ''FECHA'' = Some (PStr (py_or (elem_get_default root_el ''Fecha'' []) []))"
  "map_of (comp_of fl pad root_el) ''SERIE'' = Some (PStr (py_or (elem_get_default root_el ''Serie'' []) []))"
  "map_of (comp_of fl pad root_el) ''FOLIO'' = Some (PStr (py_or (elem_get_default root_el ''Folio'' []) []))"
  "map_of (comp_of fl pad root_el) ''N.FACTURA''
     = Some (PStr (n_factura (py_or (elem_get_default root_el ''Serie'' []) [])
                             (py_or (elem_get_default root_el ''Folio'' []) [])))"
  "map_of (comp_of fl pad root_el) ''Moneda'' = Some (PStr (py_or (elem_get_default root_el ''Moneda'' []) []))"
  "map_of (comp_of fl pad root_el) ''TipoDeComprobante''
     = Some (PStr (py_or (elem_get_default root_el ''TipoDeComprobante'' []) []))"
  "map_of (comp_of fl pad root_el) ''MetodoPago''
     = Some (PStr (py_or (elem_get_default root_el ''MetodoPago'' []) []))"
  "map_of (comp_of fl pad root_el) ''FormaPago''
     = Some (PStr (py_or (elem_get_default root_el ''FormaPago'' []) []))"
  "map_of (comp_of fl pad root_el) ''TipoCambio''
     = Some (PStr (py_or (elem_get_default root_el ''TipoCambio'' ''1'') ''1''))"
  "map_of (comp_of fl pad root_el) ''SUBTOTAL'' = Some (PNum (to_float fl (elem_get root_el ''SubTotal'') 0))"
  "map_of (comp_of fl pad root_el) ''T.FACTURA'' = Some (PNum (to_float fl (elem_get root_el ''Total'') 0))"
  "map_of (comp_of fl pad root_el) ''IVA''
     = Some (PNum (fst (impuestos_totales fl (cfdi_uri_of root_el) root_el)))"
  "map_of (comp_of fl pad root_el) ''IEPS''
     = Some (PNum (fst (snd (impuestos_totales fl (cfdi_uri_of root_el) root_el))))"
  "map_of (comp_of fl pad root_el) ''RISR''
     = Some (PNum (fst (snd (snd (impuestos_totales fl (cfdi_uri_of root_el) root_el)))))"
  "map_of (comp_of fl pad root_el) ''RIVA''
     = Some (PNum (snd (snd (snd (impuestos_totales fl (cfdi_uri_of root_el) root_el)))))"
  "map_of (comp_of fl pad root_el) ''P-Monto'' = Some (PNum (pago_monto fl root_el))"
  "map_of (comp_of fl pad root_el) ''M''
     = Some (PStr (mes pad (py_or (elem_get_default root_el ''Fecha'' []) [])))"
  by (simp_all add: comp_of_def Let_def case_prod_beta)

lemma comp_of_defaults:
  "let cfdi_uri = cfdi_uri_of root_el; c = map_of (comp_of fl pad root_el);
       emisor = elem_find (qname cfdi_uri ''Emisor'') root_el;
       receptor = elem_find (qname cfdi_uri ''Receptor'') root_el;
       impuestos = elem_find (qname cfdi_uri ''Impuestos'') root_el;
       tfd = elem_find (qname URI_TFD ''TimbreFiscalDigital'') root_el;
       pagos = elem_find (qname URI_PAGO20 ''Pagos'') root_el in
     (sin_atributo emisor ''Rfc'' \<longrightarrow> c ''RFC_EMISOR'' = Some (PStr []))
     \<and> (sin_atributo emisor ''Nombre'' \<longrightarrow> c ''NOMBRE_EMISOR'' = Some (PStr []))
     \<and> (sin_atributo receptor ''Rfc'' \<longrightarrow> c ''RFC_RECEPTOR'' = Some (PStr []))
     \<and> (sin_atributo receptor ''Nombre'' \<longrightarrow> c ''NOMBRE_RECEPTOR'' = Some (PStr []))
     \<and> (sin_atributo receptor ''UsoCFDI'' \<longrightarrow> c ''UsoCFDI'' = Some (PStr []))
     \<and> (sin_atributo tfd ''UUID'' \<longrightarrow> c ''UUID'' = Some (PStr []))
     \<and> (sin_atributo (Some root_el) ''Fecha'' \<longrightarrow> c ''FECHA'' = Some (PStr []) \<and> c ''M'' = Some (PStr []))
     \<and> (sin_atributo (Some root_el) ''Serie'' \<longrightarrow> c ''SERIE'' = Some (PStr []))
     \<and> (sin_atributo (Some root_el) ''Folio'' \<longrightarrow> c ''FOLIO'' = Some (PStr []))
     \<and> (sin_atributo (Some root_el) ''Serie'' \<and> sin_atributo (Some root_el) ''Folio'' \<longrightarrow>
        c ''N.FACTURA'' = Some (PStr []))
     \<and> (sin_atributo (Some root_el) ''Moneda'' \<longrightarrow> c ''Moneda'' = Some (PStr []))
     \<and> (sin_atributo (Some root_el) ''TipoDeComprobante'' \<longrightarrow> c ''TipoDeComprobante'' = Some (PStr []))
     \<and> (sin_atributo (Some root_el) ''MetodoPago'' \<longrightarrow> c ''MetodoPago'' = Some (PStr []))
     \<and> (sin_atributo (Some root_el) ''FormaPago'' \<longrightarrow> c ''FormaPago'' = Some (PStr []))
     \<and> (sin_atributo (Some root_el) ''TipoCambio'' \<longrightarrow> c ''TipoCambio'' = Some (PStr ''1''))
     \<and> (sin_numero fl (elem_get root_el ''SubTotal'') \<longrightarrow> c ''SUBTOTAL'' = Some (PNum 0))
     \<and> (sin_numero fl (elem_get root_el ''Total'') \<longrightarrow> c ''T.FACTURA'' = Some (PNum 0))
     \<and> (impuestos = None \<longrightarrow>
        c ''IVA'' = Some (PNum 0) \<and> c ''IEPS'' = Some (PNum 0)
        \<and> c ''RISR'' = Some (PNum 0) \<and> c ''RIVA'' = Some (PNum 0))
     \<and> ((\<exists>imp. impuestos = Some imp \<and> elem_findall (qname cfdi_uri ''Traslado'') imp = []) \<longrightarrow>
        c ''IVA'' = Some (PNum 0) \<and> c ''IEPS'' = Some (PNum 0))
     \<and> ((\<exists>imp. impuestos = Some imp \<and> elem_findall (qname cfdi_uri ''Retencion'') imp = []) \<longrightarrow>
        c ''RISR'' = Some (PNum 0) \<and> c ''RIVA'' = Some (PNum 0))
     \<and> (pagos = None
         \<or> (\<exists>pg. pagos = Some pg \<and> elem_find (qname URI_PAGO20 ''Pago'') pg = None)
         \<or> (\<exists>pg pago. pagos = Some pg \<and> elem_find (qname URI_PAGO20 ''Pago'') pg = Some pago
               \<and> sin_numero fl (elem_get pago ''Monto''))
        \<longrightarrow> c ''P-Monto'' = Some (PNum 0))
     \<and> (parse_fecha_iso (py_or (elem_get_default root_el ''Fecha'' []) []) = None
        \<longrightarrow> c ''M'' = Some (PStr []))"
  unfolding Let_def comp_of_lookup
  using pago_monto_sin [of root_el fl]
  by (auto simp: get_attrib_sin root_get_sin to_float_sin mes_Nil mes_None n_factura_Nil
      impuestos_totales_None impuestos_totales_sin_traslados impuestos_totales_sin_retenciones)

text \<open>
  C9. Every record has the same field vocabulary: the keys of the \<^verbatim>\<open>comp\<close> of any parsed
  document are the 23 fields of the schema, each once, so every field is present in every
  record of a run. Missing source data resolves to a default, whatever is missing: the
  element, the attribute of an element that is there, or the value of an attribute that
  is empty; for a number also a value that \<^verbatim>\<open>float\<close> rejects, for the payment amount a
  payments complement without payment, for the tax aggregates a container without
  entries, for the year-month a date that does not parse. The default is the empty string
  in the string fields, \<open>0\<close> in the numeric fields (Python's \<^verbatim>\<open>0.0\<close>; for the subtotal and the
  total the \<^verbatim>\<open>int\<close> \<^verbatim>\<open>0\<close>, which is equal to it) and \<^verbatim>\<open>1\<close> in the exchange rate.
\<close>

theorem comp_of_campos:
  "map fst (comp_of fl pad root_el) = campos
   \<and> distinct campos \<and> length campos = 23
   \<and> (\<forall>k \<in> set campos. map_of (comp_of fl pad root_el) k \<noteq> None)
   \<and> (\<forall>c \<in> set (registros fl pad et_parse archivos). map fst c = campos)
   \<and> (let cfdi_uri = cfdi_uri_of root_el; c = map_of (comp_of fl pad root_el);
       emisor = elem_find (qname cfdi_uri ''Emisor'') root_el;
       receptor = elem_find (qname cfdi_uri ''Receptor'') root_el;
       impuestos = elem_find (qname cfdi_uri ''Impuestos'') root_el;
       tfd = elem_find (qname URI_TFD ''TimbreFiscalDigital'') root_el;
       pagos = elem_find (qname URI_PAGO20 ''Pagos'') root_el in
     (sin_atributo emisor ''Rfc'' \<longrightarrow> c ''RFC_EMISOR'' = Some (PStr []))
     \<and> (sin_atributo emisor ''Nombre'' \<longrightarrow> c ''NOMBRE_EMISOR'' = Some (PStr []))
     \<and> (sin_atributo receptor ''Rfc'' \<longrightarrow> c ''RFC_RECEPTOR'' = Some (PStr []))
     \<and> (sin_atributo receptor ''Nombre'' \<longrightarrow> c ''NOMBRE_RECEPTOR'' = Some (PStr []))
     \<and> (sin_atributo receptor ''UsoCFDI'' \<longrightarrow> c ''UsoCFDI'' = Some (PStr []))
     \<and> (sin_atributo tfd ''UUID'' \<longrightarrow> c ''UUID'' = Some (PStr []))
     \<and> (sin_atributo (Some root_el) ''Fecha'' \<longrightarrow> c ''FECHA'' = Some (PStr []) \<and> c ''M'' = Some (PStr []))
     \<and> (sin_atributo (Some root_el) ''Serie'' \<longrightarrow> c ''SERIE'' = Some (PStr []))
     \<and> (sin_atributo (Some root_el) ''Folio'' \<longrightarrow> c ''FOLIO'' = Some (PStr []))
     \<and> (sin_atributo (Some root_el) ''Serie'' \<and> sin_atributo (Some root_el) ''Folio'' \<longrightarrow>
        c ''N.FACTURA'' = Some (PStr []))
     \<and> (sin_atributo (Some root_el) ''Moneda'' \<longrightarrow> c ''Moneda'' = Some (PStr []))
     \<and> (sin_atributo (Some root_el) ''TipoDeComprobante'' \<longrightarrow> c ''TipoDeComprobante'' = Some (PStr []))
     \<and> (sin_atributo (Some root_el) ''MetodoPago'' \<longrightarrow> c ''MetodoPago'' = Some (PStr []))
     \<and> (sin_atributo (Some root_el) ''FormaPago'' \<longrightarrow> c ''FormaPago'' = Some (PStr []))
     \<and> (sin_atributo (Some root_el) ''TipoCambio'' \<longrightarrow> c ''TipoCambio'' = Some (PStr ''1''))
     \<and> (sin_numero fl (elem_get root_el ''SubTotal'') \<longrightarrow> c ''SUBTOTAL'' = Some (PNum 0))
     \<and> (sin_numero fl (elem_get root_el ''Total'') \<longrightarrow> c ''T.FACTURA'' = Some (PNum 0))
     \<and> (impuestos = None \<longrightarrow>
        c ''IVA'' = Some (PNum 0) \<and> c ''IEPS'' = Some (PNum 0)
        \<and> c ''RISR'' = Some (PNum 0) \<and> c ''RIVA'' = Some (PNum 0))
     \<and> ((\<exists>imp. impuestos = Some imp \<and> elem_findall (qname cfdi_uri ''Traslado'') imp = []) \<longrightarrow>
        c ''IVA'' = Some (PNum 0) \<and> c ''IEPS'' = Some (PNum 0))
     \<and> ((\<exists>imp. impuestos = Some imp \<and> elem_findall (qname cfdi_uri ''Retencion'') imp = []) \<longrightarrow>
        c ''RISR'' = Some (PNum 0) \<and> c ''RIVA'' = Some (PNum 0))
     \<and> (pagos = None
         \<or> (\<exists>pg. pagos = Some pg \<and> elem_find (qname URI_PAGO20 ''Pago'') pg = None)
         \<or> (\<exists>pg pago. pagos = Some pg \<and> elem_find (qname URI_PAGO20 ''Pago'') pg = Some pago
               \<and> sin_numero fl (elem_get pago ''Monto''))
        \<longrightarrow> c ''P-Monto'' = Some (PNum 0))
     \<and> (parse_fecha_iso (py_or (elem_get_default root_el ''Fecha'' []) []) = None
        \<longrightarrow> c ''M'' = Some (PStr [])))"
proof -
  have k: "map fst (comp_of fl pad root_el) = campos" by (rule keys_comp_of)
  have d: "distinct campos \<and> length campos = 23" by (simp add: campos_def)
  have p: "\<forall>k \<in> set campos. map_of (comp_of fl pad root_el) k \<noteq> None"
  proof
    fix x assume "x \<in> set campos"
    then have "x \<in> fst ` set (comp_of fl pad root_el)" using k by (metis set_map)
    then show "map_of (comp_of fl pad root_el) x \<noteq> None" by (simp add: map_of_eq_None_iff)
  qed
  have r: "\<forall>c \<in> set (registros fl pad et_parse archivos). map fst c = campos"
    by (rule registros_campos)
  from d have d1: "distinct campos" and d2: "length campos = 23" by simp_all
  show ?thesis
    by (rule conjI [OF k conjI [OF d1 conjI [OF d2 conjI [OF p conjI [OF r comp_of_defaults]]]]])
qed

theorem comp_of_campos_witness:
  "sin_atributo (elem_find (qname (cfdi_uri_of doc3) ''Emisor'') doc3) ''Rfc''
   \<and> elem_find (qname (cfdi_uri_of doc3) ''Emisor'') doc3 \<noteq> None
   \<and> sin_atributo (elem_find (qname (cfdi_uri_of doc3) ''Receptor'') doc3) ''Nombre''
   \<and> sin_atributo (elem_find (qname URI_TFD ''TimbreFiscalDigital'') doc3) ''UUID''
   \<and> sin_atributo (Some doc3) ''TipoCambio'' \<and> elem_get doc3 ''TipoCambio'' = Some []
   \<and> sin_numero float_literal (elem_get doc3 ''SubTotal'') \<and> elem_get doc3 ''SubTotal'' = Some ''abc''
   \<and> (\<exists>pg. elem_find (qname URI_PAGO20 ''Pagos'') doc3 = Some pg
          \<and> elem_find (qname URI_PAGO20 ''Pago'') pg = None)
   \<and> parse_fecha_iso (py_or (elem_get_default doc3 ''Fecha'' []) []) = None
   \<and> ''M'' \<in> set campos
   \<and> map_of (comp_of float_literal True doc3) ''RFC_EMISOR'' = Some (PStr [])
   \<and> map_of (comp_of float_literal True doc3) ''NOMBRE_RECEPTOR'' = Some (PStr [])
   \<and> map_of (comp_of float_literal True doc3) ''UUID'' = Some (PStr [])
   \<and> map_of (comp_of float_literal True doc3) ''TipoCambio'' = Some (PStr ''1'')
   \<and> map_of (comp_of float_literal True doc3) ''SUBTOTAL'' = Some (PNum 0)
   \<and> map_of (comp_of float_literal True doc3) ''P-Monto'' = Some (PNum 0)
   \<and> map_of (comp_of float_literal True doc3) ''M'' = Some (PStr [])
   \<and> map_of (comp_of float_literal True doc3) ''M'' \<noteq> None
   \<and> map fst (comp_of float_literal True doc1) = campos"
proof -
  have h1: "sin_atributo (elem_find (qname (cfdi_uri_of doc3) ''Emisor'') doc3) ''Rfc''" by code_simp
  have h1': "elem_find (qname (cfdi_uri_of doc3) ''Emisor'') doc3 \<noteq> None" by code_simp
  have h2: "sin_atributo (elem_find (qname (cfdi_uri_of doc3) ''Receptor'') doc3) ''Nombre''" by code_simp
  have h3: "sin_atributo (elem_find (qname URI_TFD ''TimbreFiscalDigital'') doc3) ''UUID''" by code_simp
  have h4: "sin_atributo (Some doc3) ''TipoCambio''" by code_simp
  have h4': "elem_get doc3 ''TipoCambio'' = Some []" by code_simp
  have h5: "sin_numero float_literal (elem_get doc3 ''SubTotal'')" by code_simp
  have h5': "elem_get doc3 ''SubTotal'' = Some ''abc''" by code_simp
  have pg: "elem_find (qname URI_PAGO20 ''Pagos'') doc3
      = Some (Element ''{http://www.sat.gob.mx/Pagos20}Pagos'' [] [])" by code_simp
  have pg': "elem_find (qname URI_PAGO20 ''Pago'') (Element ''{http://www.sat.gob.mx/Pagos20}Pagos'' [] []) = None"
    by code_simp
  from pg pg' have h6: "\<exists>pg. elem_find (qname URI_PAGO20 ''Pagos'') doc3 = Some pg
          \<and> elem_find (qname URI_PAGO20 ''Pago'') pg = None" by simp
  have h7: "parse_fecha_iso (py_or (elem_get_default doc3 ''Fecha'' []) []) = None" by code_simp
  have h8: "''M'' \<in> set campos" by code_simp
  have h9: "comp_of float_literal True doc1 \<in> set (registros float_literal True parse1 [''/xml/b.xml''])"
    by (simp add: registros_def parse1_def)
  note t = comp_of_campos [of float_literal True doc3 parse1 "[''/xml/b.xml'']"]
  note t4 = t [THEN conjunct2, THEN conjunct2, THEN conjunct2, THEN conjunct1]
  note t5 = t [THEN conjunct2, THEN conjunct2, THEN conjunct2, THEN conjunct2, THEN conjunct1]
  note t6 = t [THEN conjunct2, THEN conjunct2, THEN conjunct2, THEN conjunct2, THEN conjunct2,
      unfolded Let_def]
  from t6 h1 have a: "map_of (comp_of float_literal True doc3) ''RFC_EMISOR'' = Some (PStr [])"
    by simp
  from t6 h2 have b: "map_of (comp_of float_literal True doc3) ''NOMBRE_RECEPTOR'' = Some (PStr [])"
    by simp
  from t6 h3 have c: "map_of (comp_of float_literal True doc3) ''UUID'' = Some (PStr [])"
    by simp
  from t6 h4 have d: "map_of (comp_of float_literal True doc3) ''TipoCambio'' = Some (PStr ''1'')"
    by simp
  from t6 h5 have e: "map_of (comp_of float_literal True doc3) ''SUBTOTAL'' = Some (PNum 0)"
    by simp
  from t6 h6 have f: "map_of (comp_of float_literal True doc3) ''P-Monto'' = Some (PNum 0)"
    by simp
  from t6 h7 have g: "map_of (comp_of float_literal True doc3) ''M'' = Some (PStr [])"
    by simp
  from t4 h8 have i: "map_of (comp_of float_literal True doc3) ''M'' \<noteq> None"
    by (rule bspec)
  from t5 h9 have j: "map fst (comp_of float_literal True doc1) = campos"
    by (rule bspec)
  show ?thesis
    by (rule conjI [OF h1 conjI [OF h1' conjI [OF h2 conjI [OF h3 conjI [OF h4 conjI [OF h4'
          conjI [OF h5 conjI [OF h5' conjI [OF h6 conjI [OF h7 conjI [OF h8 conjI [OF a
          conjI [OF b conjI [OF c conjI [OF d conjI [OF e conjI [OF f conjI [OF g
          conjI [OF i j]]]]]]]]]]]]]]]]]]])
qed

lemma paths_of_Nil: "paths_of d [] = []"
  by (simp add: paths_of_def xml_paths_def)

lemma mset_paths_of_Cons:
  "mset (paths_of d ((n, x) # es)) =
     (if \<not> is_dir x \<and> es_xml n then {#path_join d n#} else {#})
     + (case x of Dir sub \<Rightarrow> mset (paths_of (path_join d n) sub) | _ \<Rightarrow> {#})
     + mset (paths_of d es)"
  by (cases x) (simp_all add: paths_of_def xml_paths_def es_xml_def)

lemma mismo_contenido_mset:
  "mismo_contenido es es' \<Longrightarrow> mset (paths_of d es) = mset (paths_of d es')"
proof (induction arbitrary: d rule: mismo_contenido.induct)
  case vacio
  show ?case by simp
next
  case (entrada es es' name x)
  then show ?case by (simp add: mset_paths_of_Cons)
next
  case (carpeta sub sub' es es' name)
  then show ?case by (simp add: mset_paths_of_Cons)
next
  case (cambio a b es)
  show ?case by (cases a; cases b) (simp add: mset_paths_of_Cons)
next
  case (luego es es' es'')
  then show ?case by simp
qed

lemma archivo_bajo_iff:
  "archivo_bajo d es p f \<longleftrightarrow>
     (\<exists>x. (f, x) \<in> set es \<and> \<not> is_dir x \<and> p = path_join d f)
     \<or> (\<exists>name sub. (name, Dir sub) \<in> set es \<and> archivo_bajo (path_join d name) sub p f)"
  by (subst archivo_bajo.simps) auto

lemma set_paths:
  "set (concat (map xml_paths (os_walk d es))) = {p. \<exists>f. archivo_bajo d es p f \<and> es_xml f}"
  "set (concat (map xml_paths (walk_dirs d es))) =
     {p. \<exists>f name sub. (name, Dir sub) \<in> set es \<and> archivo_bajo (path_join d name) sub p f \<and> es_xml f}"
proof (induction d es and d es rule: os_walk_walk_dirs.induct)
  case (1 dirpath es)
  have "set (xml_paths (dirpath, map fst (filter (\<lambda>e. is_dir (snd e)) es), map fst (filter (\<lambda>e. \<not> is_dir (snd e)) es)))
      = {p. \<exists>f x. (f, x) \<in> set es \<and> \<not> is_dir x \<and> p = path_join dirpath f \<and> es_xml f}"
    by (auto simp: xml_paths_def es_xml_def image_iff)
  with 1 show ?case
    by (subst archivo_bajo_iff) (auto simp del: walk_dirs.simps)
next
  case (2 dirpath)
  show ?case by simp
next
  case (3 dirpath name sub es)
  then show ?case by (auto simp del: os_walk.simps)
next
  case (4 dirpath name sub es)
  then show ?case by (auto simp del: os_walk.simps)
next
  case (5 dirpath name es)
  then show ?case by (auto simp del: os_walk.simps)
next
  case (6 dirpath name es)
  then show ?case by (auto simp del: os_walk.simps)
next
  case (7 dirpath name es)
  then show ?case by (auto simp del: os_walk.simps)
qed

lemma regular_archivo: "regular_bajo d es p f \<Longrightarrow> archivo_bajo d es p f"
proof (induction rule: regular_bajo.induct)
  case (regular_aqui f es dirpath)
  then show ?case using aqui [of f File es dirpath] by simp
next
  case (regular_abajo name sub es dirpath p f)
  then show ?case by (auto intro: abajo)
qed

lemma bf_names: "bien_formado es \<Longrightarrow> (n, x) \<in> set es \<Longrightarrow> n \<noteq> [] \<and> CHR ''/'' \<notin> set n"
  by (erule bien_formado.cases) force

lemma bf_sub: "bien_formado es \<Longrightarrow> (n, Dir sub) \<in> set es \<Longrightarrow> bien_formado sub"
  by (erule bien_formado.cases) blast

lemma bf_distinct: "bien_formado es \<Longrightarrow> distinct (map fst es)"
  by (erule bien_formado.cases) blast

lemma bf_Cons: "bien_formado (e # es) \<Longrightarrow> bien_formado es"
  by (erule bien_formado.cases) (auto intro: bien_formado.intros)

lemma not_endswith_barra:
  "n \<noteq> [] \<Longrightarrow> CHR ''/'' \<notin> set n \<Longrightarrow> \<not> endswith (a @ n) ''/''"
proof
  assume n: "n \<noteq> []" "CHR ''/'' \<notin> set n" and "endswith (a @ n) ''/''"
  then obtain zs where "a @ n = zs @ [CHR ''/'']" by (auto simp: endswith_def suffix_def)
  then have "last (a @ n) = CHR ''/''" by simp
  with n(1) have "last n = CHR ''/''" by simp
  with n show False using last_in_set [of n] by simp
qed

lemma path_join_wf:
  "n \<noteq> [] \<Longrightarrow> CHR ''/'' \<notin> set n \<Longrightarrow> path_join d n = con_barra d @ n"
  by (cases n) (auto simp: path_join_def con_barra_def startswith_def)

lemma con_barra_join:
  assumes "n \<noteq> []" "CHR ''/'' \<notin> set n"
  shows "con_barra (path_join d n) = con_barra d @ n @ ''/''"
proof -
  from assms have "\<not> endswith (con_barra d @ n) ''/''" by (rule not_endswith_barra)
  with assms show ?thesis by (simp add: path_join_wf) (simp add: con_barra_def [of "con_barra d @ n"])
qed

lemma archivo_bajo_prefix:
  "archivo_bajo d es p f \<Longrightarrow> bien_formado es \<Longrightarrow> \<exists>q. p = con_barra d @ q"
proof (induction rule: archivo_bajo.induct)
  case (aqui f x es dirpath)
  from bf_names [OF aqui(3) aqui(1)] show ?case by (simp add: path_join_wf)
next
  case (abajo name sub es dirpath p f)
  from bf_sub [OF abajo(4) abajo(1)] abajo(3)
  obtain q where "p = con_barra (path_join dirpath name) @ q" by blast
  with bf_names [OF abajo(4) abajo(1)] show ?case by (simp add: con_barra_join)
qed

lemma walk_dirs_prefix:
  assumes "p \<in> set (concat (map xml_paths (walk_dirs d es)))" "bien_formado es"
  shows "\<exists>n sub q. (n, Dir sub) \<in> set es \<and> p = con_barra d @ n @ ''/'' @ q"
proof -
  from assms(1) obtain f name sub where n: "(name, Dir sub) \<in> set es"
    and a: "archivo_bajo (path_join d name) sub p f"
    unfolding set_paths(2) by blast
  from archivo_bajo_prefix [OF a bf_sub [OF assms(2) n]]
  obtain q where "p = con_barra (path_join d name) @ q" by blast
  with bf_names [OF assms(2) n] have "p = con_barra d @ name @ ''/'' @ q"
    by (simp add: con_barra_join)
  with n show ?thesis by blast
qed

lemma first_component:
  assumes "c \<notin> set a" "c \<notin> set b" "a @ c # x = b @ c # y"
  shows "a = b"
proof -
  have "takeWhile (\<lambda>z. z \<noteq> c) (a @ c # x) = a" using assms(1) by (auto simp: takeWhile_tail)
  moreover have "takeWhile (\<lambda>z. z \<noteq> c) (b @ c # y) = b" using assms(2) by (auto simp: takeWhile_tail)
  ultimately show ?thesis using assms(3) by simp
qed

lemma distinct_paths:
  "bien_formado es \<Longrightarrow> distinct (concat (map xml_paths (os_walk d es)))"
  "bien_formado es \<Longrightarrow> distinct (concat (map xml_paths (walk_dirs d es)))"
proof (induction d es and d es rule: os_walk_walk_dirs.induct)
  case (1 dirpath es)
  let ?files = "filter (\<lambda>f. endswith (py_lower f) ''.xml'') (map fst (filter (\<lambda>e. \<not> is_dir (snd e)) es))"
  have wf: "n \<noteq> [] \<and> CHR ''/'' \<notin> set n" if "n \<in> set ?files" for n
    using that bf_names [OF "1.prems"] by auto
  have "distinct (map fst (filter (\<lambda>e. \<not> is_dir (snd e)) es))"
    using bf_distinct [OF "1.prems"] by (rule distinct_map_filter)
  then have d1: "distinct ?files" by (rule distinct_filter)
  have "inj_on (path_join dirpath) (set ?files)"
  proof (rule inj_onI)
    fix x y assume "x \<in> set ?files" "y \<in> set ?files" "path_join dirpath x = path_join dirpath y"
    with wf [of x] wf [of y] show "x = y" by (simp add: path_join_wf)
  qed
  with d1 have a: "distinct (map (path_join dirpath) ?files)" by (simp add: distinct_map)
  have b: "distinct (concat (map xml_paths (walk_dirs dirpath es)))"
    using "1.IH" "1.prems" by simp
  have c: "set (map (path_join dirpath) ?files) \<inter> set (concat (map xml_paths (walk_dirs dirpath es))) = {}"
  proof (rule ccontr)
    assume "\<not> ?thesis"
    then obtain p where p1: "p \<in> set (map (path_join dirpath) ?files)"
      and p2: "p \<in> set (concat (map xml_paths (walk_dirs dirpath es)))" by blast
    from p1 obtain f where f: "f \<in> set ?files" "p = path_join dirpath f" by auto
    from walk_dirs_prefix [OF p2 "1.prems"] obtain n sub q where
      "p = con_barra dirpath @ n @ ''/'' @ q" by blast
    with f wf [of f] have "f = n @ ''/'' @ q" by (simp add: path_join_wf)
    with wf [of f] f(1) show False by simp
  qed
  have x: "xml_paths (dirpath, map fst (filter (\<lambda>e. is_dir (snd e)) es),
      map fst (filter (\<lambda>e. \<not> is_dir (snd e)) es)) = map (path_join dirpath) ?files"
    by (simp add: xml_paths_def)
  from a b c show ?case unfolding os_walk.simps list.map concat.simps x distinct_append
    by blast
next
  case (2 dirpath)
  show ?case by simp
next
  case (3 dirpath name sub es)
  have n: "(name, Dir sub) \<in> set ((name, Dir sub) # es)" by simp
  have bs: "bien_formado sub" using bf_sub [OF "3.prems" n] .
  have be: "bien_formado es" using bf_Cons [OF "3.prems"] .
  have wn: "name \<noteq> [] \<and> CHR ''/'' \<notin> set name" using bf_names [OF "3.prems" n] .
  have nn: "name \<notin> fst ` set es" using bf_distinct [OF "3.prems"] by simp
  have a: "distinct (concat (map xml_paths (os_walk (path_join dirpath name) sub)))"
    using "3.IH"(1) bs by simp
  have b: "distinct (concat (map xml_paths (walk_dirs dirpath es)))"
    using "3.IH"(2) be by simp
  have c: "set (concat (map xml_paths (os_walk (path_join dirpath name) sub)))
      \<inter> set (concat (map xml_paths (walk_dirs dirpath es))) = {}"
  proof (rule ccontr)
    assume "\<not> ?thesis"
    then obtain p where p1: "p \<in> set (concat (map xml_paths (os_walk (path_join dirpath name) sub)))"
      and p2: "p \<in> set (concat (map xml_paths (walk_dirs dirpath es)))" by blast
    from p1 obtain f where "archivo_bajo (path_join dirpath name) sub p f"
      unfolding set_paths(1) by blast
    from archivo_bajo_prefix [OF this bs] obtain q where "p = con_barra (path_join dirpath name) @ q"
      by blast
    with wn have e1: "p = con_barra dirpath @ name @ CHR ''/'' # q" by (simp add: con_barra_join)
    from walk_dirs_prefix [OF p2 be] obtain n' sub' q' where
      m: "(n', Dir sub') \<in> set es" and e2: "p = con_barra dirpath @ n' @ CHR ''/'' # q'" by auto
    from e1 e2 have eq: "name @ CHR ''/'' # q = n' @ CHR ''/'' # q'" by simp
    from bf_names [OF be m] have sn: "CHR ''/'' \<notin> set n'" by (rule conjunct2)
    from wn have sm: "CHR ''/'' \<notin> set name" by (rule conjunct2)
    from sm sn eq have "name = n'" by (rule first_component)
    moreover from m have "n' \<in> fst ` set es" by force
    ultimately show False using nn by simp
  qed
  from a b c show ?case
    unfolding walk_dirs.simps map_append concat_append distinct_append by blast
next
  case (4 dirpath name sub es)
  have "bien_formado es" using bf_Cons [OF "4.prems"] .
  with "4.IH" show ?case by simp
next
  case (5 dirpath name es)
  have "bien_formado es" using bf_Cons [OF "5.prems"] .
  with "5.IH" show ?case by simp
next
  case (6 dirpath name es)
  have "bien_formado es" using bf_Cons [OF "6.prems"] .
  with "6.IH" show ?case by simp
next
  case (7 dirpath name es)
  have "bien_formado es" using bf_Cons [OF "7.prems"] .
  with "7.IH" show ?case by simp
qed

lemma of_char_lower:
  "(of_char (lower_char c) :: nat) =
     (if 65 \<le> (of_char c :: nat) \<and> (of_char c :: nat) \<le> 90 then of_char c + 32 else of_char c)"
  by (simp add: lower_char_def less_eq_char_def)

lemma char_eq_code: "c = d \<longleftrightarrow> (of_char c :: nat) = of_char d"
  by simp

lemma lower_char_eq:
  "lower_char c = CHR ''.'' \<longleftrightarrow> c = CHR ''.''"
  "lower_char c = CHR ''x'' \<longleftrightarrow> c = CHR ''x'' \<or> c = CHR ''X''"
  "lower_char c = CHR ''m'' \<longleftrightarrow> c = CHR ''m'' \<or> c = CHR ''M''"
  "lower_char c = CHR ''l'' \<longleftrightarrow> c = CHR ''l'' \<or> c = CHR ''L''"
  by (auto simp: char_eq_code [of "lower_char c"] char_eq_code [of c] of_char_lower)

lemma es_xml_iff:
  "es_xml f \<longleftrightarrow>
     (\<exists>stem x m l. f = stem @ [CHR ''.'', x, m, l]
        \<and> x \<in> {CHR ''x'', CHR ''X''} \<and> m \<in> {CHR ''m'', CHR ''M''} \<and> l \<in> {CHR ''l'', CHR ''L''})"
proof
  assume "es_xml f"
  then obtain ys where ys: "map lower_char f = ys @ ''.xml''"
    by (auto simp: es_xml_def endswith_def py_lower_def suffix_def)
  then obtain stem t where f: "f = stem @ t" and "map lower_char stem = ys" and t: "map lower_char t = ''.xml''"
    by (auto simp: map_eq_append_conv)
  from t obtain a b c d where "t = [a, b, c, d]" and "lower_char a = CHR ''.''" "lower_char b = CHR ''x''"
    "lower_char c = CHR ''m''" "lower_char d = CHR ''l''"
    by (auto simp: map_eq_Cons_conv)
  with f show "\<exists>stem x m l. f = stem @ [CHR ''.'', x, m, l]
        \<and> x \<in> {CHR ''x'', CHR ''X''} \<and> m \<in> {CHR ''m'', CHR ''M''} \<and> l \<in> {CHR ''l'', CHR ''L''}"
    by (auto simp: lower_char_eq)
next
  assume "\<exists>stem x m l. f = stem @ [CHR ''.'', x, m, l]
        \<and> x \<in> {CHR ''x'', CHR ''X''} \<and> m \<in> {CHR ''m'', CHR ''M''} \<and> l \<in> {CHR ''l'', CHR ''L''}"
  then obtain stem x m l where f: "f = stem @ [CHR ''.'', x, m, l]"
    and "lower_char x = CHR ''x''" "lower_char m = CHR ''m''" "lower_char l = CHR ''l''"
    by (auto simp: lower_char_eq)
  then have "map lower_char f = map lower_char stem @ ''.xml''"
    by (simp add: lower_char_eq)
  then show "es_xml f"
    by (simp add: es_xml_def endswith_def py_lower_def suffix_def)
qed

lemma listar_paths_of:
  "fs carpeta = Some (Dir es) \<or> fs carpeta = Some (Link_dir es)
   \<Longrightarrow> listar_xmls_recursivo fs carpeta = sort (paths_of carpeta es)"
  by (auto simp: listar_xmls_recursivo_def paths_of_def)

lemma sort_mset_cong: "mset xs = mset ys \<Longrightarrow> sort xs = sort (ys :: string list)"
  by (rule properties_for_sort) simp_all

lemma no_directorio: "\<not> is_dir x \<longleftrightarrow> x = File \<or> x = Special"
  by (cases x) simp_all

text \<open>
  C5, as the code has it. On an existing directory, \<^verbatim>\<open>listar_xmls_recursivo\<close> returns exactly
  the paths of the entries that are no directories, regular files or not, whose names end
  in \<^verbatim>\<open>.xml\<close> case-insensitively (a dot and the letters x, m, l in either case), in the
  directory or at any depth below it in directories that are no symbolic links and can be
  listed. The regular files there are among them. The paths are in sorted order, each
  once when in every directory the names are distinct, not empty and without a slash; and
  two listings of the same tree in different orders give the same sequence. A root that
  cannot be listed gives the empty sequence.
\<close>

theorem listar_xmls_recursivo_exacto:
  "(fs carpeta = Some (Dir es) \<or> fs carpeta = Some (Link_dir es) \<longrightarrow>
      set (listar_xmls_recursivo fs carpeta) = {p. \<exists>f. archivo_bajo carpeta es p f \<and> es_xml f}
      \<and> {p. \<exists>f. regular_bajo carpeta es p f \<and> es_xml f} \<subseteq> set (listar_xmls_recursivo fs carpeta)
      \<and> (\<forall>n x. (n, x) \<in> set es \<and> (x = File \<or> x = Special) \<and> es_xml n
            \<longrightarrow> path_join carpeta n \<in> set (listar_xmls_recursivo fs carpeta))
      \<and> sorted (listar_xmls_recursivo fs carpeta)
      \<and> (bien_formado es \<longrightarrow> distinct (listar_xmls_recursivo fs carpeta))
      \<and> ((fs' carpeta = Some (Dir es') \<or> fs' carpeta = Some (Link_dir es')) \<and> mismo_contenido es es' \<longrightarrow>
           listar_xmls_recursivo fs' carpeta = listar_xmls_recursivo fs carpeta))
   \<and> (fs carpeta = Some Dir_unreadable \<longrightarrow> listar_xmls_recursivo fs carpeta = [])
   \<and> (es_xml f \<longleftrightarrow>
        (\<exists>stem x m l. f = stem @ [CHR ''.'', x, m, l]
           \<and> x \<in> {CHR ''x'', CHR ''X''} \<and> m \<in> {CHR ''m'', CHR ''M''} \<and> l \<in> {CHR ''l'', CHR ''L''}))"
proof (intro conjI impI allI)
  assume h: "fs carpeta = Some (Dir es) \<or> fs carpeta = Some (Link_dir es)"
  then have l: "listar_xmls_recursivo fs carpeta = sort (paths_of carpeta es)"
    by (rule listar_paths_of)
  show s: "set (listar_xmls_recursivo fs carpeta) = {p. \<exists>f. archivo_bajo carpeta es p f \<and> es_xml f}"
    using set_paths(1) [of carpeta es] by (simp add: l paths_of_def)
  show "{p. \<exists>f. regular_bajo carpeta es p f \<and> es_xml f} \<subseteq> set (listar_xmls_recursivo fs carpeta)"
    unfolding s using regular_archivo by blast
  show "sorted (listar_xmls_recursivo fs carpeta)"
    by (simp add: l)
  {
    fix n x assume a: "(n, x) \<in> set es \<and> (x = File \<or> x = Special) \<and> es_xml n"
    then have "\<not> is_dir x" by (auto simp: no_directorio)
    with a have "archivo_bajo carpeta es (path_join carpeta n) n"
      using aqui [of n x es carpeta] by blast
    with a show "path_join carpeta n \<in> set (listar_xmls_recursivo fs carpeta)"
      unfolding s by blast
  }
  {
    assume "bien_formado es"
    then have "distinct (paths_of carpeta es)"
      unfolding paths_of_def by (rule distinct_paths(1))
    then show "distinct (listar_xmls_recursivo fs carpeta)" by (simp add: l)
  }
  {
    assume h': "(fs' carpeta = Some (Dir es') \<or> fs' carpeta = Some (Link_dir es')) \<and> mismo_contenido es es'"
    then have "fs' carpeta = Some (Dir es') \<or> fs' carpeta = Some (Link_dir es')" by (rule conjunct1)
    then have l': "listar_xmls_recursivo fs' carpeta = sort (paths_of carpeta es')"
      by (rule listar_paths_of)
    from h' have "mset (paths_of carpeta es') = mset (paths_of carpeta es)"
      using mismo_contenido_mset [of es es' carpeta] by simp
    then have "sort (paths_of carpeta es') = sort (paths_of carpeta es)"
      by (rule sort_mset_cong)
    with l l' show "listar_xmls_recursivo fs' carpeta = listar_xmls_recursivo fs carpeta"
      by simp
  }
next
  assume "fs carpeta = Some Dir_unreadable"
  then show "listar_xmls_recursivo fs carpeta = []" by (simp add: listar_xmls_recursivo_def)
next
  show "es_xml f \<longleftrightarrow>
        (\<exists>stem x m l. f = stem @ [CHR ''.'', x, m, l]
           \<and> x \<in> {CHR ''x'', CHR ''X''} \<and> m \<in> {CHR ''m'', CHR ''M''} \<and> l \<in> {CHR ''l'', CHR ''L''})"
    by (rule es_xml_iff)
qed

theorem listar_xmls_recursivo_exacto_witness:
  "fs1 ''/xml'' = Some (Dir entradas1) \<and> fs2 ''/xml'' = Some (Dir entradas2)
   \<and> mismo_contenido entradas1 entradas2 \<and> bien_formado entradas1
   \<and> (''b.xml'', File) \<in> set entradas1 \<and> es_xml ''b.xml''
   \<and> path_join ''/xml'' ''b.xml'' \<in> set (listar_xmls_recursivo fs1 ''/xml'')
   \<and> sorted (listar_xmls_recursivo fs1 ''/xml'')
   \<and> distinct (listar_xmls_recursivo fs1 ''/xml'')
   \<and> listar_xmls_recursivo fs2 ''/xml'' = listar_xmls_recursivo fs1 ''/xml''
   \<and> listar_xmls_recursivo fs1 ''/xml'' = [''/xml/b.xml'', ''/xml/sub/A.XML'', ''/xml/sub/roto.xml'']"
proof -
  have h1: "fs1 ''/xml'' = Some (Dir entradas1)" by code_simp
  have h2: "fs2 ''/xml'' = Some (Dir entradas2)" by code_simp
  have h3: "mismo_contenido entradas1 entradas2"
    unfolding entradas1_def entradas2_def by (rule cambio)
  have sub: "bien_formado [(''roto.xml'', File), (''A.XML'', File)]"
    by (rule bien_formado.intros) simp_all
  have h4: "bien_formado entradas1"
    unfolding entradas1_def by (rule bien_formado.intros) (use sub in auto)
  have h5: "(''b.xml'', File) \<in> set entradas1" by (simp add: entradas1_def)
  have h6: "es_xml ''b.xml''" by code_simp
  have v: "listar_xmls_recursivo fs1 ''/xml'' = [''/xml/b.xml'', ''/xml/sub/A.XML'', ''/xml/sub/roto.xml'']"
    by code_simp
  from h1 have h1': "fs1 ''/xml'' = Some (Dir entradas1) \<or> fs1 ''/xml'' = Some (Link_dir entradas1)"
    by (rule disjI1)
  note t = listar_xmls_recursivo_exacto [of fs1 "''/xml''" entradas1 fs2 entradas2,
      THEN conjunct1, THEN mp, OF h1']
  note t3 = t [THEN conjunct2, THEN conjunct2, THEN conjunct1]
  note t4 = t [THEN conjunct2, THEN conjunct2, THEN conjunct2, THEN conjunct1]
  note t5 = t [THEN conjunct2, THEN conjunct2, THEN conjunct2, THEN conjunct2, THEN conjunct1]
  note t6 = t [THEN conjunct2, THEN conjunct2, THEN conjunct2, THEN conjunct2, THEN conjunct2]
  from t3 h5 h6 have a: "path_join ''/xml'' ''b.xml'' \<in> set (listar_xmls_recursivo fs1 ''/xml'')"
    by blast
  from t5 h4 have c: "distinct (listar_xmls_recursivo fs1 ''/xml'')" by (rule mp)
  from t6 h2 h3 have b: "listar_xmls_recursivo fs2 ''/xml'' = listar_xmls_recursivo fs1 ''/xml''"
    by simp
  show ?thesis
    by (rule conjI [OF h1 conjI [OF h2 conjI [OF h3 conjI [OF h4 conjI [OF h5 conjI [OF h6
          conjI [OF a conjI [OF t4 conjI [OF c conjI [OF b v]]]]]]]]]])
qed

text \<open>
  C5, as the specification states it, fails on the directory \<^verbatim>\<open>/raro\<close>: the one path returned
  is that of the FIFO \<^verbatim>\<open>cola.xml\<close>, which is no regular file, and no regular file is found
  there; the regular file \<^verbatim>\<open>c.xml\<close> behind the symbolic link \<^verbatim>\<open>enlace\<close> is under the root and is
  not returned.
\<close>

theorem listar_xmls_recursivo_exacto_counterexample:
  "fs1 ''/raro'' = Some (Dir entradas3)
   \<and> listar_xmls_recursivo fs1 ''/raro'' = [''/raro/cola.xml'']
   \<and> map_of entradas3 ''cola.xml'' = Some Special
   \<and> {p. \<exists>f. regular_bajo ''/raro'' entradas3 p f \<and> es_xml f} = {}
   \<and> map_of entradas3 ''enlace'' = Some (Link_dir [(''c.xml'', File)])
   \<and> es_xml ''c.xml''
   \<and> ''/raro/enlace/c.xml'' \<notin> set (listar_xmls_recursivo fs1 ''/raro'')"
proof -
  have a: "fs1 ''/raro'' = Some (Dir entradas3)" by code_simp
  have b: "listar_xmls_recursivo fs1 ''/raro'' = [''/raro/cola.xml'']" by code_simp
  have c: "map_of entradas3 ''cola.xml'' = Some Special" by code_simp
  have "\<not> regular_bajo ''/raro'' entradas3 p f" for p f
  proof
    assume "regular_bajo ''/raro'' entradas3 p f"
    then show False by (rule regular_bajo.cases) (auto simp: entradas3_def)
  qed
  then have d: "{p. \<exists>f. regular_bajo ''/raro'' entradas3 p f \<and> es_xml f} = {}" by simp
  have e: "map_of entradas3 ''enlace'' = Some (Link_dir [(''c.xml'', File)])" by code_simp
  have f: "es_xml ''c.xml''" by code_simp
  have g: "''/raro/enlace/c.xml'' \<notin> set (listar_xmls_recursivo fs1 ''/raro'')"
    unfolding b by simp
  show ?thesis
    by (rule conjI [OF a conjI [OF b conjI [OF c conjI [OF d conjI [OF e conjI [OF f g]]]]]])
qed

end
